theory Spec2Isabelle
  imports Main
begin

section \<open>Python values and exceptions\<close>

text \<open>
  The exceptions the modelled code can raise. \<open>KeyError\<close> carries the missing key,
  \<open>ValueError\<close> the rejected value. \<open>PluginError\<close> stands for whatever a product plugin
  or one of its external collaborators (network retrieval, PAD parser, version parser)
  raises; the string tells them apart.
\<close>

datatype error =
    KeyError string
  | ValueError string
  | ImportError string
  | PluginError string
  | MissingMandatorySectionError string
  | MissingAppSectionError string
  | MissingKeyError string string
  | NotDeclaredSetError string string

section \<open>The configparser data model\<close>

text \<open>
  A \<open>ConfigParser\<close> holds an ordered dictionary of sections, each an ordered dictionary
  from option names to string values. Both are association lists here, in insertion
  order. Value interpolation and the special \<open>DEFAULT\<close> section are not modelled:
  section names are product identifiers (option names of the configuration, which
  the parser lower-cases) and values are taken as the parser hands them out.
\<close>

type_synonym props = "(string \<times> string) list"
type_synonym ini = "(string \<times> props) list"

definition sections :: "ini \<Rightarrow> string list" where
  "sections cat = map fst cat"

definition add_section :: "ini \<Rightarrow> string \<Rightarrow> ini" where
  "add_section cat s = cat @ [(s, [])]"

definition remove_section :: "ini \<Rightarrow> string \<Rightarrow> ini" where
  "remove_section cat s = filter (\<lambda>e. fst e \<noteq> s) cat"

text \<open>\<open>d[k] = v\<close> on an ordered dictionary: in place when the key exists, appended otherwise.\<close>

fun dict_set :: "('k \<times> 'v) list \<Rightarrow> 'k \<Rightarrow> 'v \<Rightarrow> ('k \<times> 'v) list" where
  "dict_set [] k v = [(k, v)]"
| "dict_set ((k', v') # d) k v = (if k' = k then (k, v) # d else (k', v') # dict_set d k v)"

text \<open>\<open>parser[s][k] = v\<close>: the section \<open>s\<close> exists where the code does this.\<close>

fun set_option :: "ini \<Rightarrow> string \<Rightarrow> string \<Rightarrow> string \<Rightarrow> ini" where
  "set_option [] s k v = []"
| "set_option ((s', d) # cat) s k v =
     (if s' = s then (s', dict_set d k v) # cat else (s', d) # set_option cat s k v)"

text \<open>\<open>d[k]\<close>: a missing key raises \<open>KeyError\<close>.\<close>

definition getitem :: "(string \<times> 'v) list \<Rightarrow> string \<Rightarrow> error + 'v" where
  "getitem d k = (case map_of d k of None \<Rightarrow> Inl (KeyError k) | Some v \<Rightarrow> Inr v)"

definition lower_char :: "char \<Rightarrow> char" where
  "lower_char c =
     (case map_of (zip ''ABCDEFGHIJKLMNOPQRSTUVWXYZ'' ''abcdefghijklmnopqrstuvwxyz'') c of
        None \<Rightarrow> c | Some l \<Rightarrow> l)"

definition lower :: "string \<Rightarrow> string" where
  "lower s = map lower_char s"

text \<open>
  \<open>parser[s][k]\<close>: the section name is looked up as it is, the option name is
  lower-cased first (\<open>optionxform\<close>); the \<open>KeyError\<close> carries the name as given. The
  key names the code uses as constants are in lower case already, and are looked up
  directly below.
\<close>

definition getitem2 :: "ini \<Rightarrow> string \<Rightarrow> string \<Rightarrow> error + string" where
  "getitem2 cfg s k =
     (case getitem cfg s of
        Inl e \<Rightarrow> Inl e
      | Inr d \<Rightarrow> (case map_of d (lower k) of None \<Rightarrow> Inl (KeyError k) | Some v \<Rightarrow> Inr v))"

text \<open>\<open>ConfigParser.getboolean\<close>: the lower-cased value is looked up in \<open>BOOLEAN_STATES\<close>.\<close>

definition BOOLEAN_STATES :: "(string \<times> bool) list" where
  "BOOLEAN_STATES =
     [(''1'', True), (''yes'', True), (''true'', True), (''on'', True),
      (''0'', False), (''no'', False), (''false'', False), (''off'', False)]"

definition getboolean :: "string \<Rightarrow> error + bool" where
  "getboolean v =
     (case map_of BOOLEAN_STATES (lower v) of
        None \<Rightarrow> Inl (ValueError v) | Some b \<Rightarrow> Inr b)"

section \<open>Catalog keys\<close>

definition PROD_NAME_KEYNAME :: string where "PROD_NAME_KEYNAME = ''name''"
definition PROD_VERSION_KEYNAME :: string where "PROD_VERSION_KEYNAME = ''version''"
definition PROD_PUBDATE_KEYNAME :: string where "PROD_PUBDATE_KEYNAME = ''published''"
definition PROD_TARGET_KEYNAME :: string where "PROD_TARGET_KEYNAME = ''target''"
definition PROD_REL_NOTE_URL_KEYNAME :: string where "PROD_REL_NOTE_URL_KEYNAME = ''release_note''"
definition PROD_INSTALLER_KEYNAME :: string where "PROD_INSTALLER_KEYNAME = ''installer''"
definition PROD_STD_INSTALL_ARGS_KEYNAME :: string where
  "PROD_STD_INSTALL_ARGS_KEYNAME = ''std_inst_args''"
definition PROD_SILENT_INSTALL_ARGS_KEYNAME :: string where
  "PROD_SILENT_INSTALL_ARGS_KEYNAME = ''silent_inst_args''"
definition PROD_UPDATE_AVAIL_KEYNAME :: string where
  "PROD_UPDATE_AVAIL_KEYNAME = ''update_available''"
definition PROD_UPDATE_VERSION_KEYNAME :: string where
  "PROD_UPDATE_VERSION_KEYNAME = ''update_version''"
definition PROD_UPDATE_PUBDATE_KEYNAME :: string where
  "PROD_UPDATE_PUBDATE_KEYNAME = ''update_published''"

section \<open>Product objects\<close>

text \<open>
  Modelled from the spec: \<open>cots.core.BaseProduct\<close> is not among the sources. A product
  object carries the fields of a product record, under the attribute names that the
  sources read and write; their values are strings, as the catalog stores them,
  \<open>update_available\<close> is a boolean and \<open>update\<close> is \<open>None\<close> or the candidate found by the
  last check. The orchestrator spells the
  silent-install attribute \<open>silent_inst_arg\<close>, the plugins \<open>silent_inst_args\<close>: both
  names are attributes of the object.

  The candidate built by \<open>check_update\<close> is itself a \<open>Product()\<close>; it is a record of its
  own here because two of its attributes hold what the PAD getters return, a string
  or \<open>None\<close>.
\<close>

record candidate =
  cand_name :: string
  cand_version :: string
  cand_published :: "string option"
  cand_location :: "string option"
  cand_target :: string
  cand_release_note :: string
  cand_installer :: string
  cand_std_inst_args :: string
  cand_silent_inst_args :: string
  cand_product_code :: string

record product =
  product_id :: string
  name :: string
  version :: string
  published :: string
  target :: string
  release_note :: string
  installer :: string
  std_inst_args :: string
  silent_inst_arg :: string
  silent_inst_args :: string
  update_available :: bool
  update_version :: string
  update_published :: string
  update :: "candidate option"

section \<open>Catalog store: loading and dumping one product\<close>

text \<open>
  \<open>AppDownload._load_product\<close>. An absent section leaves the object as it is. The only
  statement that can raise is \<open>getboolean\<close> on \<open>update_available\<close>.
\<close>

definition load_product :: "ini \<Rightarrow> string \<Rightarrow> product \<Rightarrow> error + product" where
  "load_product cat section_name p =
     (case map_of cat section_name of
        None \<Rightarrow> Inr p
      | Some app_props \<Rightarrow>
          (let p0 = p\<lparr>product_id := section_name\<rparr>;
               p1 = (case map_of app_props PROD_NAME_KEYNAME of
                       None \<Rightarrow> p0 | Some v \<Rightarrow> p0\<lparr>name := v\<rparr>);
               p2 = (case map_of app_props PROD_VERSION_KEYNAME of
                       None \<Rightarrow> p1 | Some v \<Rightarrow> p1\<lparr>version := v\<rparr>);
               p3 = (case map_of app_props PROD_PUBDATE_KEYNAME of
                       None \<Rightarrow> p2 | Some v \<Rightarrow> p2\<lparr>published := v\<rparr>);
               p4 = (case map_of app_props PROD_TARGET_KEYNAME of
                       None \<Rightarrow> p3 | Some v \<Rightarrow> p3\<lparr>target := v\<rparr>);
               p5 = (case map_of app_props PROD_REL_NOTE_URL_KEYNAME of
                       None \<Rightarrow> p4 | Some v \<Rightarrow> p4\<lparr>release_note := v\<rparr>);
               p6 = (case map_of app_props PROD_INSTALLER_KEYNAME of
                       None \<Rightarrow> p5 | Some v \<Rightarrow> p5\<lparr>installer := v\<rparr>);
               p7 = (case map_of app_props PROD_STD_INSTALL_ARGS_KEYNAME of
                       None \<Rightarrow> p6 | Some v \<Rightarrow> p6\<lparr>std_inst_args := v\<rparr>);
               p8 = (case map_of app_props PROD_SILENT_INSTALL_ARGS_KEYNAME of
                       None \<Rightarrow> p7 | Some v \<Rightarrow> p7\<lparr>silent_inst_arg := v\<rparr>)
           in case (case map_of app_props PROD_UPDATE_AVAIL_KEYNAME of
                      None \<Rightarrow> Inr p8
                    | Some v \<Rightarrow>
                        (case getboolean v of
                           Inl e \<Rightarrow> Inl e
                         | Inr b \<Rightarrow> Inr (p8\<lparr>update_available := b\<rparr>))) of
                Inl e \<Rightarrow> Inl e
              | Inr p9 \<Rightarrow>
                  (let p10 = (case map_of app_props PROD_UPDATE_VERSION_KEYNAME of
                                None \<Rightarrow> p9 | Some v \<Rightarrow> p9\<lparr>update_version := v\<rparr>);
                       p11 = (case map_of app_props PROD_UPDATE_PUBDATE_KEYNAME of
                                None \<Rightarrow> p10 | Some v \<Rightarrow> p10\<lparr>update_published := v\<rparr>)
                   in Inr p11)))"

text \<open>
  \<open>AppDownload._dump_product\<close>. An existing section is removed and added again, which
  drops its obsolete keys and moves it to the end of the catalog.
\<close>

definition dump_product :: "ini \<Rightarrow> string \<Rightarrow> product \<Rightarrow> ini" where
  "dump_product cat section_name p =
     (let c0 = (if section_name \<notin> set (sections cat) then add_section cat section_name
                else add_section (remove_section cat section_name) section_name);
          c1 = set_option c0 section_name PROD_NAME_KEYNAME (name p);
          c2 = set_option c1 section_name PROD_VERSION_KEYNAME (version p);
          c3 = set_option c2 section_name PROD_PUBDATE_KEYNAME (published p);
          c4 = set_option c3 section_name PROD_TARGET_KEYNAME (target p);
          c5 = set_option c4 section_name PROD_REL_NOTE_URL_KEYNAME (release_note p);
          c6 = set_option c5 section_name PROD_INSTALLER_KEYNAME (installer p);
          c7 = set_option c6 section_name PROD_STD_INSTALL_ARGS_KEYNAME (std_inst_args p);
          c8 = set_option c7 section_name PROD_SILENT_INSTALL_ARGS_KEYNAME (silent_inst_arg p);
          c9 = (if update_available p
                then set_option c8 section_name PROD_UPDATE_AVAIL_KEYNAME ''yes''
                else set_option c8 section_name PROD_UPDATE_AVAIL_KEYNAME ''no'');
          c10 = set_option c9 section_name PROD_UPDATE_VERSION_KEYNAME (update_version p)
      in set_option c10 section_name PROD_UPDATE_PUBDATE_KEYNAME (update_published p))"

text \<open>The eleven keys of a catalog section, in the order \<open>_dump_product\<close> writes them.\<close>

definition standard_keys :: "string list" where
  "standard_keys =
     [PROD_NAME_KEYNAME, PROD_VERSION_KEYNAME, PROD_PUBDATE_KEYNAME, PROD_TARGET_KEYNAME,
      PROD_REL_NOTE_URL_KEYNAME, PROD_INSTALLER_KEYNAME, PROD_STD_INSTALL_ARGS_KEYNAME,
      PROD_SILENT_INSTALL_ARGS_KEYNAME, PROD_UPDATE_AVAIL_KEYNAME,
      PROD_UPDATE_VERSION_KEYNAME, PROD_UPDATE_PUBDATE_KEYNAME]"

definition dumped_props :: "product \<Rightarrow> props" where
  "dumped_props p =
     [(PROD_NAME_KEYNAME, name p),
      (PROD_VERSION_KEYNAME, version p),
      (PROD_PUBDATE_KEYNAME, published p),
      (PROD_TARGET_KEYNAME, target p),
      (PROD_REL_NOTE_URL_KEYNAME, release_note p),
      (PROD_INSTALLER_KEYNAME, installer p),
      (PROD_STD_INSTALL_ARGS_KEYNAME, std_inst_args p),
      (PROD_SILENT_INSTALL_ARGS_KEYNAME, silent_inst_arg p),
      (PROD_UPDATE_AVAIL_KEYNAME, if update_available p then ''yes'' else ''no''),
      (PROD_UPDATE_VERSION_KEYNAME, update_version p),
      (PROD_UPDATE_PUBDATE_KEYNAME, update_published p)]"

text \<open>Loading a section into an object and dumping the object back, read as one step.\<close>

definition load_then_dump :: "ini \<Rightarrow> string \<Rightarrow> product \<Rightarrow> error + props" where
  "load_then_dump cat s p0 =
     (case load_product cat s p0 of
        Inl e \<Rightarrow> Inl e
      | Inr p \<Rightarrow> getitem (dump_product cat s p) s)"

section \<open>The MakeMKV plugin\<close>

text \<open>
  What the plugin touches outside the object: the temporary files holding retrieved
  metadata, and the installers stored by \<open>fetch_update\<close>.
\<close>

record world =
  temp_files :: "string list"
  stored_files :: "string list"

text \<open>An element of the parsed PAD file; its text may be \<open>None\<close>.\<close>

datatype element = Element (item_text: "string option")

type_synonym pad = "string \<Rightarrow> element option"

text \<open>
  The collaborators of the plugin that are not among the sources, taken as
  parameters: the two retrieval helpers and \<open>_rename_installer\<close> of
  \<open>core.BaseProduct\<close>, its \<open>load(dump())\<close> pair, the PAD parser, the version type of
  \<open>semver\<close> with its order, and the built-ins \<open>int\<close> and \<open>datetime.date(...).isoformat()\<close>.
  \<open>Product_init\<close> is the state of a freshly constructed \<open>Product()\<close>.
\<close>

record 'v collaborators =
  temporary_retrieve :: "string \<Rightarrow> error + string"
  file_retrieve :: "string option \<Rightarrow> string \<Rightarrow> error + string"
  rename_installer :: "candidate \<Rightarrow> string \<Rightarrow> error + candidate"
  load_dump :: "product \<Rightarrow> candidate \<Rightarrow> product"
  parse :: "string \<Rightarrow> error + pad"
  SemVer :: "string \<Rightarrow> error + 'v"
  semver_less :: "'v \<Rightarrow> 'v \<Rightarrow> bool"
  py_int :: "string option \<Rightarrow> error + int"
  date_isoformat :: "int \<Rightarrow> int \<Rightarrow> int \<Rightarrow> error + string"
  Product_init :: candidate

definition catalog_location :: string where
  "catalog_location = ''http://www.makemkv.com/makemkv.xml''"

definition get_version :: "pad \<Rightarrow> string option" where
  "get_version pad_find =
     (case pad_find ''Program_Info/Program_Version'' of
        None \<Rightarrow> None
      | Some item \<Rightarrow> item_text item)"

definition get_release_date :: "'v collaborators \<Rightarrow> pad \<Rightarrow> error + string option" where
  "get_release_date env pad_find =
     (case pad_find ''Program_Info/Program_Release_Year'' of
        None \<Rightarrow> Inr None
      | Some item \<Rightarrow>
          (case py_int env (item_text item) of
             Inl e \<Rightarrow> Inl e
           | Inr year \<Rightarrow>
               (case pad_find ''Program_Info/Program_Release_Month'' of
                  None \<Rightarrow> Inr None
                | Some item \<Rightarrow>
                    (case py_int env (item_text item) of
                       Inl e \<Rightarrow> Inl e
                     | Inr month \<Rightarrow>
                         (case pad_find ''Program_Info/Program_Release_Day'' of
                            None \<Rightarrow> Inr None
                          | Some item \<Rightarrow>
                              (case py_int env (item_text item) of
                                 Inl e \<Rightarrow> Inl e
                               | Inr day \<Rightarrow>
                                   (case date_isoformat env year month day of
                                      Inl e \<Rightarrow> Inl e
                                    | Inr release_date \<Rightarrow> Inr (Some release_date))))))))"

definition get_release_note :: string where
  "get_release_note = ''http://www.makemkv.com/download/''"

definition get_location :: "pad \<Rightarrow> string option" where
  "get_location pad_find =
     (case pad_find ''Web_Info/Download_URLs/Primary_Download_URL'' of
        None \<Rightarrow> None
      | Some item \<Rightarrow> item_text item)"

text \<open>\<open>os.unlink\<close> of the temporary file.\<close>

definition unlink :: "world \<Rightarrow> string \<Rightarrow> world" where
  "unlink w f = w\<lparr>temp_files := removeAll f (temp_files w)\<rparr>"

text \<open>
  \<open>Product.check_update\<close> of \<open>cots/makemkv.py\<close>. The result is the exception raised, if
  any, with the object and the world as the call leaves them. A raise leaves the
  function at once, so the final \<open>os.unlink\<close> is reached on the normal paths only.
\<close>

definition check_update ::
  "'v collaborators \<Rightarrow> product \<Rightarrow> world \<Rightarrow> error option \<times> product \<times> world" where
  "check_update env self w =
     (case temporary_retrieve env catalog_location of
        Inl e \<Rightarrow> (Some e, self, w)
      | Inr local_filename \<Rightarrow>
          (let w1 = w\<lparr>temp_files := local_filename # temp_files w\<rparr>;
               self1 = self\<lparr>update := None\<rparr>
           in case parse env local_filename of
                Inl e \<Rightarrow> (Some e, self1, w1)
              | Inr pad_find \<Rightarrow>
                  (case get_version pad_find of
                     None \<Rightarrow> (None, self1, unlink w1 local_filename)
                   | Some v \<Rightarrow>
                       (case SemVer env (version self1) of
                          Inl e \<Rightarrow> (Some e, self1, w1)
                        | Inr local_version \<Rightarrow>
                            (case SemVer env v of
                               Inl e \<Rightarrow> (Some e, self1, w1)
                             | Inr remote_version \<Rightarrow>
                                 if semver_less env local_version remote_version
                                 then
                                   (case get_release_date env pad_find of
                                      Inl e \<Rightarrow> (Some e, self1, w1)
                                    | Inr d \<Rightarrow>
                                        (None,
                                         self1\<lparr>update := Some ((Product_init env)
                                           \<lparr>cand_version := v,
                                            cand_published := d,
                                            cand_location := get_location pad_find\<rparr>)\<rparr>,
                                         unlink w1 local_filename))
                                 else (None, self1, unlink w1 local_filename))))))"

text \<open>
  \<open>Product.fetch_update\<close> of \<open>cots/makemkv.py\<close>. \<open>prod\<close> is the object \<open>self.update\<close>
  refers to (\<open>prod0\<close> here), so the assignments to it show in \<open>self.update\<close>.
\<close>

definition fetch_update ::
  "'v collaborators \<Rightarrow> product \<Rightarrow> string \<Rightarrow> world \<Rightarrow> error option \<times> product \<times> world" where
  "fetch_update env self path w =
     (case update self of
        None \<Rightarrow> (None, self, w)
      | Some prod0 \<Rightarrow>
          (case file_retrieve env (cand_location prod0) path of
             Inl e \<Rightarrow> (Some e, self, w)
           | Inr local_filename \<Rightarrow>
               (let w1 = w\<lparr>stored_files := local_filename # stored_files w\<rparr>;
                    prod1 = prod0\<lparr>cand_target := '''',
                                 cand_release_note := get_release_note,
                                 cand_std_inst_args := '''',
                                 cand_silent_inst_args := ''/S'',
                                 cand_product_code := ''''\<rparr>
                in case rename_installer env prod1 local_filename of
                     Inl e \<Rightarrow> (Some e, self\<lparr>update := Some prod1\<rparr>, w1)
                   | Inr prod2 \<Rightarrow>
                       (None, load_dump env (self\<lparr>update := Some prod2\<rparr>) prod2, w1))))"

text \<open>\<open>Product.is_update\<close> of \<open>cots/dummy.py\<close>, both arguments being dummy products.\<close>

definition is_update :: "'v collaborators \<Rightarrow> product \<Rightarrow> product \<Rightarrow> error + bool" where
  "is_update env self p =
     (case SemVer env (version self) of
        Inl e \<Rightarrow> Inl e
      | Inr a \<Rightarrow>
          (case SemVer env (version p) of
             Inl e \<Rightarrow> Inl e
           | Inr b \<Rightarrow> Inr (semver_less env a b)))"

section \<open>The orchestrator\<close>

definition APPS_LIST_SECTNAME :: string where "APPS_LIST_SECTNAME = ''applications''"
definition APP_MODULE_KEYNAME :: string where "APP_MODULE_KEYNAME = ''module''"
definition APP_PATH_KEYNAME :: string where "APP_PATH_KEYNAME = ''path''"
definition APP_SET_KEYNAME :: string where "APP_SET_KEYNAME = ''set''"
definition CORE_SECTNAME :: string where "CORE_SECTNAME = ''core''"
definition STORE_KEYNAME :: string where "STORE_KEYNAME = ''store''"
definition SETS_LIST_SECTNAME :: string where "SETS_LIST_SECTNAME = ''sets''"
definition APPLIST_SEP :: string where "APPLIST_SEP = '';''"

text \<open>
  A product module as the orchestrator uses it: the constructor \<open>Product()\<close> and the two
  methods, each returning the exception raised, if any, with the object and the
  plugin's world as the call leaves them.
\<close>

record 'w plugin =
  new_Product :: product
  plugin_check_update :: "product \<Rightarrow> 'w \<Rightarrow> error option \<times> product \<times> 'w"
  plugin_fetch_update :: "product \<Rightarrow> string \<Rightarrow> 'w \<Rightarrow> error option \<times> product \<times> 'w"

text \<open>
  The library functions the orchestrator calls, taken as parameters:
  \<open>importlib.import_module\<close> (\<open>None\<close> where it raises \<open>ImportError\<close>), \<open>os.path.join\<close>,
  the clock reading \<open>datetime.now().isoformat()\<close> (the same at every call of one run),
  and the text form of a \<open>ConfigParser\<close>: \<open>write\<close> and \<open>read_file\<close>, the latter adding
  to the sections the parser already holds.
\<close>

record 'w platform =
  import_module :: "string \<Rightarrow> 'w plugin option"
  os_path_join :: "string \<Rightarrow> string \<Rightarrow> string"
  now_isoformat :: string
  ini_write :: "ini \<Rightarrow> string"
  ini_read_file :: "ini \<Rightarrow> string \<Rightarrow> error + ini"

text \<open>
  The \<open>AppDownload\<close> instance after its configuration file has been parsed, together
  with what it acts on: the catalog file (\<open>None\<close> while it does not exist), the applist
  files it has opened, keyed by component name and each held as the sequence of
  strings written to it, and the world of the plugins.
\<close>

record 'w app_download =
  config :: ini
  catalog :: ini
  app_set_file :: "(string \<times> string list) list"
  catalog_file :: "string option"
  plugin_world :: 'w

text \<open>\<open>self._config[_APPS_LIST_SECTNAME].getboolean(app_id)\<close>.\<close>

definition enabled :: "ini \<Rightarrow> string \<Rightarrow> error + bool" where
  "enabled cfg app_id =
     (case getitem2 cfg APPS_LIST_SECTNAME app_id of
        Inl e \<Rightarrow> Inl e
      | Inr v \<Rightarrow> getboolean v)"

text \<open>The validation part of \<open>AppDownload._load_config\<close>, on the parsed configuration.\<close>

definition check_app :: "ini \<Rightarrow> props \<Rightarrow> string \<Rightarrow> error option" where
  "check_app cfg sets app_name =
     (case enabled cfg app_name of
        Inl e \<Rightarrow> Some e
      | Inr False \<Rightarrow> None
      | Inr True \<Rightarrow>
          (case map_of cfg app_name of
             None \<Rightarrow> Some (MissingAppSectionError app_name)
           | Some app_desc \<Rightarrow>
               (case map_of app_desc APP_MODULE_KEYNAME of
                  None \<Rightarrow> Some (MissingKeyError app_name APP_MODULE_KEYNAME)
                | Some m \<Rightarrow>
                    (case map_of app_desc APP_SET_KEYNAME of
                       None \<Rightarrow> Some (MissingKeyError app_name APP_SET_KEYNAME)
                     | Some s \<Rightarrow>
                         (case map_of sets (lower s) of
                            None \<Rightarrow> Some (NotDeclaredSetError app_name s)
                          | Some c \<Rightarrow> None)))))"

fun check_apps :: "ini \<Rightarrow> props \<Rightarrow> string list \<Rightarrow> error option" where
  "check_apps cfg sets [] = None"
| "check_apps cfg sets (app_name # rest) =
     (case check_app cfg sets app_name of
        Some e \<Rightarrow> Some e
      | None \<Rightarrow> check_apps cfg sets rest)"

definition load_config :: "ini \<Rightarrow> error option" where
  "load_config cfg =
     (case map_of cfg CORE_SECTNAME of
        None \<Rightarrow> Some (MissingMandatorySectionError CORE_SECTNAME)
      | Some sect \<Rightarrow>
          (case map_of sect STORE_KEYNAME of
             None \<Rightarrow> Some (MissingKeyError STORE_KEYNAME CORE_SECTNAME)
           | Some store \<Rightarrow>
               (case map_of cfg SETS_LIST_SECTNAME of
                  None \<Rightarrow> Some (MissingMandatorySectionError SETS_LIST_SECTNAME)
                | Some sets \<Rightarrow>
                    (case map_of cfg APPS_LIST_SECTNAME of
                       None \<Rightarrow> Some (MissingMandatorySectionError APPS_LIST_SECTNAME)
                     | Some apps \<Rightarrow> check_apps cfg sets (map fst apps)))))"

text \<open>\<open>AppDownload._read_catalog\<close>: a missing file is not an error.\<close>

definition read_catalog ::
  "'w platform \<Rightarrow> 'w app_download \<Rightarrow> error option \<times> 'w app_download" where
  "read_catalog pf st =
     (case catalog_file st of
        None \<Rightarrow> (None, st)
      | Some txt \<Rightarrow>
          (case ini_read_file pf (catalog st) txt of
             Inl e \<Rightarrow> (Some e, st)
           | Inr c \<Rightarrow> (None, st\<lparr>catalog := c\<rparr>)))"

text \<open>
  The body of the loop of \<open>AppDownload._check_update\<close> for one product identifier.
  Nothing in it catches an exception: whatever the lookups, the loading or the
  plugin raises leaves the loop and the method.
\<close>

definition check_update_app ::
  "'w platform \<Rightarrow> string \<Rightarrow> 'w app_download \<Rightarrow> error option \<times> 'w app_download" where
  "check_update_app pf app_id st =
     (case enabled (config st) app_id of
        Inl e \<Rightarrow> (Some e, st)
      | Inr False \<Rightarrow> (None, st)
      | Inr True \<Rightarrow>
          (case getitem2 (config st) app_id APP_MODULE_KEYNAME of
             Inl e \<Rightarrow> (Some e, st)
           | Inr mod_name \<Rightarrow>
               (case import_module pf mod_name of
                  None \<Rightarrow> (Some (ImportError mod_name), st)
                | Some app_mod \<Rightarrow>
                    (case load_product (catalog st) app_id (new_Product app_mod) of
                       Inl e \<Rightarrow> (Some e, st)
                     | Inr app \<Rightarrow>
                         (case plugin_check_update app_mod app (plugin_world st) of
                            (Some e, app', w') \<Rightarrow> (Some e, st\<lparr>plugin_world := w'\<rparr>)
                          | (None, app', w') \<Rightarrow>
                              (None, st\<lparr>catalog := dump_product (catalog st) app_id app',
                                        plugin_world := w'\<rparr>))))))"

fun check_update_apps ::
  "'w platform \<Rightarrow> string list \<Rightarrow> 'w app_download \<Rightarrow> error option \<times> 'w app_download" where
  "check_update_apps pf [] st = (None, st)"
| "check_update_apps pf (app_id # rest) st =
     (case check_update_app pf app_id st of
        (Some e, st') \<Rightarrow> (Some e, st')
      | (None, st') \<Rightarrow> check_update_apps pf rest st')"

text \<open>\<open>AppDownload._check_update\<close>: the loop over the keys of the applications section.\<close>

definition check_update_all ::
  "'w platform \<Rightarrow> 'w app_download \<Rightarrow> error option \<times> 'w app_download" where
  "check_update_all pf st =
     (case getitem (config st) APPS_LIST_SECTNAME of
        Inl e \<Rightarrow> (Some e, st)
      | Inr apps \<Rightarrow> check_update_apps pf (map fst apps) st)"

text \<open>The body of the loop of \<open>AppDownload._fetch_update\<close>, and the loop.\<close>

definition fetch_path :: "'w platform \<Rightarrow> ini \<Rightarrow> string \<Rightarrow> error + string" where
  "fetch_path pf cfg app_id =
     (case getitem cfg app_id of
        Inl e \<Rightarrow> Inl e
      | Inr app_desc \<Rightarrow>
          (case map_of app_desc APP_PATH_KEYNAME of
             None \<Rightarrow>
               (case getitem2 cfg CORE_SECTNAME STORE_KEYNAME of
                  Inl e \<Rightarrow> Inl e
                | Inr store \<Rightarrow> Inr (os_path_join pf store app_id))
           | Some path \<Rightarrow> Inr path))"

definition fetch_update_app ::
  "'w platform \<Rightarrow> string \<Rightarrow> 'w app_download \<Rightarrow> error option \<times> 'w app_download" where
  "fetch_update_app pf app_id st =
     (case enabled (config st) app_id of
        Inl e \<Rightarrow> (Some e, st)
      | Inr False \<Rightarrow> (None, st)
      | Inr True \<Rightarrow>
          (case getitem2 (config st) app_id APP_MODULE_KEYNAME of
             Inl e \<Rightarrow> (Some e, st)
           | Inr mod_name \<Rightarrow>
               (case import_module pf mod_name of
                  None \<Rightarrow> (Some (ImportError mod_name), st)
                | Some app_mod \<Rightarrow>
                    (case load_product (catalog st) app_id (new_Product app_mod) of
                       Inl e \<Rightarrow> (Some e, st)
                     | Inr app \<Rightarrow>
                         (case fetch_path pf (config st) app_id of
                            Inl e \<Rightarrow> (Some e, st)
                          | Inr path \<Rightarrow>
                              (case plugin_fetch_update app_mod app path (plugin_world st) of
                                 (Some e, app', w') \<Rightarrow> (Some e, st\<lparr>plugin_world := w'\<rparr>)
                               | (None, app', w') \<Rightarrow>
                                   (None, st\<lparr>catalog := dump_product (catalog st) app_id app',
                                             plugin_world := w'\<rparr>)))))))"

fun fetch_update_apps ::
  "'w platform \<Rightarrow> string list \<Rightarrow> 'w app_download \<Rightarrow> error option \<times> 'w app_download" where
  "fetch_update_apps pf [] st = (None, st)"
| "fetch_update_apps pf (app_id # rest) st =
     (case fetch_update_app pf app_id st of
        (Some e, st') \<Rightarrow> (Some e, st')
      | (None, st') \<Rightarrow> fetch_update_apps pf rest st')"

definition fetch_update_all ::
  "'w platform \<Rightarrow> 'w app_download \<Rightarrow> error option \<times> 'w app_download" where
  "fetch_update_all pf st =
     (case getitem (config st) APPS_LIST_SECTNAME of
        Inl e \<Rightarrow> (Some e, st)
      | Inr apps \<Rightarrow> fetch_update_apps pf (map fst apps) st)"

section \<open>Saving the catalog\<close>

definition nl :: string where
  "nl = [CHR 0x0A]"

definition rule_line :: string where
  "rule_line =
     ''# ------------------------------------------------------------------------------''"

definition catalog_header :: "string \<Rightarrow> string" where
  "catalog_header dt =
     rule_line @ nl @
     ''# This file is automatically generated on '' @ dt @ '','' @ nl @
     ''# and must not be manually modified.'' @ nl @
     ''# It contains the applications database and specifies for each application the'' @ nl @
     ''# following properties. Appdownload script uses this database to build the'' @ nl @
     ''# applist files used by appdeploy script.'' @ nl @
     rule_line @ nl"

text \<open>
  \<open>AppDownload._write_catalog\<close> acts on the catalog file itself, in three steps:
  \<open>open(..., "w+t")\<close> creates the file or truncates it, then the header is written,
  then the catalog. \<open>file_apply\<close> gives the content of the file after one step.
\<close>

datatype file_op = Truncate | Write string

fun file_apply :: "string option \<Rightarrow> file_op \<Rightarrow> string option" where
  "file_apply f Truncate = Some []"
| "file_apply f (Write s) = Some ((case f of None \<Rightarrow> [] | Some c \<Rightarrow> c) @ s)"

definition write_catalog_ops :: "'w platform \<Rightarrow> 'w app_download \<Rightarrow> file_op list" where
  "write_catalog_ops pf st =
     [Truncate, Write (catalog_header (now_isoformat pf)), Write (ini_write pf (catalog st))]"

text \<open>The catalog file when the save stops after its first \<open>n\<close> steps.\<close>

definition catalog_file_after :: "'w platform \<Rightarrow> 'w app_download \<Rightarrow> nat \<Rightarrow> string option" where
  "catalog_file_after pf st n = foldl file_apply (catalog_file st) (take n (write_catalog_ops pf st))"

definition write_catalog :: "'w platform \<Rightarrow> 'w app_download \<Rightarrow> 'w app_download" where
  "write_catalog pf st =
     st\<lparr>catalog_file := foldl file_apply (catalog_file st) (write_catalog_ops pf st)\<rparr>"

section \<open>Exporting the applist files\<close>

definition applist_header :: "string \<Rightarrow> string \<Rightarrow> string" where
  "applist_header dt comp_name =
     rule_line @ nl @
     ''# This applist file generated on '' @ dt @ '' for '' @ [CHR 0x27] @ comp_name @
       [CHR 0x27] @ ''.'' @ nl @
     ''# This file is automatically generated, and must not be manually modified.'' @ nl @
     ''# Please modify the configuration file instead (appdowload.ini by default).'' @ nl @
     rule_line @ nl"

text \<open>\<open>str.split(sep)\<close> for a one-character separator, and \<open>str.strip()\<close>.\<close>

fun split :: "char \<Rightarrow> string \<Rightarrow> string list" where
  "split sep [] = [[]]"
| "split sep (c # cs) =
     (if c = sep then [] # split sep cs
      else (case split sep cs of [] \<Rightarrow> [[c]] | w # ws \<Rightarrow> (c # w) # ws))"

definition is_space :: "char \<Rightarrow> bool" where
  "is_space c =
     (c \<in> set [CHR '' '', CHR 0x09, CHR 0x0A, CHR 0x0B, CHR 0x0C, CHR 0x0D,
                CHR 0x1C, CHR 0x1D, CHR 0x1E, CHR 0x1F])"

definition strip :: "string \<Rightarrow> string" where
  "strip s = rev (dropWhile is_space (rev (dropWhile is_space s)))"

text \<open>The line of one product: the first missing key raises \<open>KeyError\<close>.\<close>

definition app_line :: "props \<Rightarrow> error + string" where
  "app_line app_desc =
     (case getitem app_desc PROD_TARGET_KEYNAME of
        Inl e \<Rightarrow> Inl e
      | Inr t \<Rightarrow>
     (case getitem app_desc PROD_NAME_KEYNAME of
        Inl e \<Rightarrow> Inl e
      | Inr n \<Rightarrow>
     (case getitem app_desc PROD_VERSION_KEYNAME of
        Inl e \<Rightarrow> Inl e
      | Inr v \<Rightarrow>
     (case getitem app_desc PROD_INSTALLER_KEYNAME of
        Inl e \<Rightarrow> Inl e
      | Inr i \<Rightarrow>
     (case getitem app_desc PROD_SILENT_INSTALL_ARGS_KEYNAME of
        Inl e \<Rightarrow> Inl e
      | Inr a \<Rightarrow>
          Inr (t @ APPLIST_SEP @ n @ APPLIST_SEP @ v @ APPLIST_SEP @ i @ APPLIST_SEP @ a))))))"

text \<open>\<open>file.write(s)\<close> on the file opened for a component.\<close>

definition file_write ::
  "(string \<times> string list) list \<Rightarrow> string \<Rightarrow> string \<Rightarrow> (string \<times> string list) list" where
  "file_write files comp_name s =
     map (\<lambda>(c, ws). if c = comp_name then (c, ws @ [s]) else (c, ws)) files"

text \<open>
  The inner loop over the components of a set: a component met for the first time gets
  its file, opened for writing and started with the header.
\<close>

fun write_comps ::
  "string \<Rightarrow> string \<Rightarrow> string list \<Rightarrow> (string \<times> string list) list \<Rightarrow>
   (string \<times> string list) list" where
  "write_comps dt line [] files = files"
| "write_comps dt line (raw_name # rest) files =
     (let comp_name = strip raw_name;
          files1 = (if map_of files comp_name = None
                    then files @ [(comp_name, [applist_header dt comp_name])]
                    else files)
      in write_comps dt line rest (file_write files1 comp_name (line @ nl)))"

text \<open>The body of the outer loop of \<open>AppDownload._write_applist\<close>, and the loop.\<close>

definition write_applist_app ::
  "'w platform \<Rightarrow> string \<Rightarrow> 'w app_download \<Rightarrow> error option \<times> 'w app_download" where
  "write_applist_app pf app_id st =
     (case enabled (config st) app_id of
        Inl e \<Rightarrow> (Some e, st)
      | Inr False \<Rightarrow> (None, st)
      | Inr True \<Rightarrow>
     (case getitem (catalog st) app_id of
        Inl e \<Rightarrow> (Some e, st)
      | Inr app_desc \<Rightarrow>
     (case app_line app_desc of
        Inl e \<Rightarrow> (Some e, st)
      | Inr line \<Rightarrow>
     (case getitem2 (config st) CORE_SECTNAME STORE_KEYNAME of
        Inl e \<Rightarrow> (Some e, st)
      | Inr store_path \<Rightarrow>
     (case getitem2 (config st) app_id APP_SET_KEYNAME of
        Inl e \<Rightarrow> (Some e, st)
      | Inr app_set_name \<Rightarrow>
     (case getitem2 (config st) SETS_LIST_SECTNAME app_set_name of
        Inl e \<Rightarrow> (Some e, st)
      | Inr comps \<Rightarrow>
          (None, st\<lparr>app_set_file :=
                      write_comps (now_isoformat pf) line (split CHR '','' comps)
                        (app_set_file st)\<rparr>)))))))"

fun write_applist_apps ::
  "'w platform \<Rightarrow> string list \<Rightarrow> 'w app_download \<Rightarrow> error option \<times> 'w app_download" where
  "write_applist_apps pf [] st = (None, st)"
| "write_applist_apps pf (app_id # rest) st =
     (case write_applist_app pf app_id st of
        (Some e, st') \<Rightarrow> (Some e, st')
      | (None, st') \<Rightarrow> write_applist_apps pf rest st')"

definition write_applist ::
  "'w platform \<Rightarrow> 'w app_download \<Rightarrow> error option \<times> 'w app_download" where
  "write_applist pf st =
     (case getitem (config st) APPS_LIST_SECTNAME of
        Inl e \<Rightarrow> (Some e, st)
      | Inr apps \<Rightarrow> write_applist_apps pf (map fst apps) st)"

section \<open>A full run\<close>

text \<open>
  \<open>AppDownload.run\<close>: the six steps in sequence. An exception raised by a step leaves
  \<open>run\<close>, so the steps after it are not executed.
\<close>

definition run :: "'w platform \<Rightarrow> 'w app_download \<Rightarrow> error option \<times> 'w app_download" where
  "run pf st =
     (case load_config (config st) of
        Some e \<Rightarrow> (Some e, st)
      | None \<Rightarrow>
     (case read_catalog pf st of
        (Some e, st1) \<Rightarrow> (Some e, st1)
      | (None, st1) \<Rightarrow>
     (case check_update_all pf st1 of
        (Some e, st2) \<Rightarrow> (Some e, st2)
      | (None, st2) \<Rightarrow>
     (case fetch_update_all pf st2 of
        (Some e, st3) \<Rightarrow> (Some e, st3)
      | (None, st3) \<Rightarrow> write_applist pf (write_catalog pf st3)))))"

section \<open>The MakeMKV module as the orchestrator sees it\<close>

text \<open>
  \<open>Product.__init__\<close> of \<open>cots/makemkv.py\<close> sets the name on top of what
  \<open>core.BaseProduct.__init__\<close> leaves, which is the argument here.
\<close>

definition Product :: "product \<Rightarrow> product" where
  "Product base = base\<lparr>name := ''MakeMKV''\<rparr>"

definition makemkv_module :: "'v collaborators \<Rightarrow> product \<Rightarrow> world plugin" where
  "makemkv_module env base =
     \<lparr>new_Product = Product base,
      plugin_check_update = check_update env,
      plugin_fetch_update = fetch_update env\<rparr>"

text \<open>One turn of the inner loop of \<open>_write_applist\<close>, for the stripped component name.\<close>

definition write_one ::
  "string \<Rightarrow> string \<Rightarrow> string \<Rightarrow> (string \<times> string list) list \<Rightarrow>
   (string \<times> string list) list" where
  "write_one dt line comp_name files =
     file_write (if map_of files comp_name = None
                 then files @ [(comp_name, [applist_header dt comp_name])]
                 else files) comp_name (line @ nl)"

text \<open>
  Two relations on the dictionary of open applist files, used to follow a file through
  the export: every file of \<open>fs\<close> is still there in \<open>fs'\<close> with its content extended,
  and every file starts with the header of its component.
\<close>

definition grows :: "(string \<times> string list) list \<Rightarrow> (string \<times> string list) list \<Rightarrow> bool" where
  "grows fs fs' = (\<forall>c ws. map_of fs c = Some ws \<longrightarrow> (\<exists>ws'. map_of fs' c = Some (ws @ ws')))"

definition headed :: "string \<Rightarrow> (string \<times> string list) list \<Rightarrow> bool" where
  "headed dt fs = (\<forall>c ws. map_of fs c = Some ws \<longrightarrow> (\<exists>t. ws = applist_header dt c # t))"

text \<open>
  The condition under which the step for \<open>k\<close> does not raise: the configuration entry
  passed the validation, and the record of an enabled product has the five fields.
\<close>

definition exportable :: "ini \<Rightarrow> ini \<Rightarrow> string \<Rightarrow> bool" where
  "exportable cfg cat k =
     (case enabled cfg k of
        Inl e \<Rightarrow> False
      | Inr False \<Rightarrow> True
      | Inr True \<Rightarrow>
          (case getitem cat k of
             Inl e \<Rightarrow> False
           | Inr d \<Rightarrow> (case app_line d of Inl e \<Rightarrow> False | Inr l \<Rightarrow> True)))"

section \<open>Sample inputs\<close>

text \<open>A product object with every attribute empty, and a catalog section for it.\<close>

definition blank_product :: product where
  "blank_product =
     \<lparr>product_id = '''', name = '''', version = '''', published = '''', target = '''',
      release_note = '''', installer = '''', std_inst_args = '''', silent_inst_arg = '''',
      silent_inst_args = '''', update_available = False, update_version = '''',
      update_published = '''', update = None\<rparr>"

definition sample_props :: "string \<Rightarrow> props" where
  "sample_props ua =
     [(''name'', ''Sample''),
      (''version'', ''1.0.0''),
      (''published'', ''2024-01-15''),
      (''target'', ''unified''),
      (''release_note'', ''http://www.example.com/release_note.txt''),
      (''installer'', ''sample-1.0.0.exe''),
      (''std_inst_args'', ''''),
      (''silent_inst_args'', ''/S''),
      (''update_available'', ua),
      (''update_version'', ''1.2.0''),
      (''update_published'', ''2024-03-01'')]"

text \<open>
  Sample collaborators of the MakeMKV plugin: a metadata file announcing version
  \<open>1.2.0\<close>, released on 2024-03-01, versions ordered through a small table, and an
  installer retrieval that fails.
\<close>

definition sample_pad :: pad where
  "sample_pad =
     map_of [(''Program_Info/Program_Version'', Element (Some ''1.2.0'')),
             (''Program_Info/Program_Release_Year'', Element (Some ''2024'')),
             (''Program_Info/Program_Release_Month'', Element (Some ''3'')),
             (''Program_Info/Program_Release_Day'', Element (Some ''1'')),
             (''Web_Info/Download_URLs/Primary_Download_URL'',
                Element (Some ''http://www.makemkv.com/download/Setup_MakeMKV_v1.2.0.exe''))]"

definition sample_candidate :: candidate where
  "sample_candidate =
     \<lparr>cand_name = ''MakeMKV'', cand_version = '''', cand_published = None,
      cand_location = None, cand_target = '''', cand_release_note = '''',
      cand_installer = '''', cand_std_inst_args = '''', cand_silent_inst_args = '''',
      cand_product_code = ''''\<rparr>"

definition sample_env :: "nat collaborators" where
  "sample_env =
     \<lparr>temporary_retrieve = (\<lambda>url. Inr ''/tmp/tmp0001''),
      file_retrieve = (\<lambda>location path. Inl (PluginError ''retrieval failed'')),
      rename_installer = (\<lambda>c f. Inr (c\<lparr>cand_installer := f\<rparr>)),
      load_dump = (\<lambda>self c. self\<lparr>version := cand_version c, installer := cand_installer c\<rparr>),
      parse = (\<lambda>f. Inr sample_pad),
      SemVer = (\<lambda>s. case map_of [(''1.0.0'', 100), (''1.2.0'', 120), (''1.3.0'', 130)] s of
                        None \<Rightarrow> Inl (ValueError s) | Some n \<Rightarrow> Inr n),
      semver_less = (\<lambda>a b. a < b),
      py_int = (\<lambda>t. case t of
                        None \<Rightarrow> Inl (ValueError '''')
                      | Some s \<Rightarrow>
                          (case map_of [(''2024'', 2024), (''3'', 3), (''1'', 1)] s of
                             None \<Rightarrow> Inl (ValueError s) | Some n \<Rightarrow> Inr n)),
      date_isoformat = (\<lambda>y m d. if y = 2024 \<and> m = 3 \<and> d = 1 then Inr ''2024-03-01''
                                   else Inl (ValueError ''date'')),
      Product_init = sample_candidate\<rparr>"

definition sample_world :: world where
  "sample_world = \<lparr>temp_files = [], stored_files = []\<rparr>"

text \<open>The same collaborators with a PAD parser that rejects the retrieved file.\<close>

definition bad_pad_env :: "nat collaborators" where
  "bad_pad_env = sample_env\<lparr>parse := (\<lambda>f. Inl (PluginError ''malformed PAD file''))\<rparr>"

text \<open>
  A configuration with two enabled products of one set with two components. The
  module of \<open>alpha\<close> cannot reach its metadata; the module of \<open>beta\<close> is the MakeMKV
  plugin with the sample collaborators.
\<close>

definition unreachable_env :: "nat collaborators" where
  "unreachable_env =
     sample_env\<lparr>temporary_retrieve := (\<lambda>url. Inl (PluginError ''metadata unavailable''))\<rparr>"

definition sample_config :: ini where
  "sample_config =
     [(''core'', [(''store'', ''store'')]),
      (''sets'', [(''all'', ''c1, c2'')]),
      (''applications'', [(''alpha'', ''yes''), (''beta'', ''yes'')]),
      (''alpha'', [(''module'', ''cots.unreachable''), (''set'', ''all'')]),
      (''beta'', [(''module'', ''cots.makemkv''), (''set'', ''all'')])]"

text \<open>The text written for a catalog: each section as a header line and its options.\<close>

definition sample_ini_write :: "ini \<Rightarrow> string" where
  "sample_ini_write cat =
     concat (map (\<lambda>(s, d). ''['' @ s @ '']'' @ nl @
                    concat (map (\<lambda>(k, v). k @ '' = '' @ v @ nl) d) @ nl) cat)"

definition sample_platform :: "world platform" where
  "sample_platform =
     \<lparr>import_module =
        map_of [(''cots.unreachable'', makemkv_module unreachable_env blank_product),
                (''cots.makemkv'',
                   makemkv_module sample_env (blank_product\<lparr>version := ''1.0.0''\<rparr>))],
      os_path_join = (\<lambda>a b. a @ ''/'' @ b),
      now_isoformat = ''2024-03-02T10:00:00'',
      ini_write = sample_ini_write,
      ini_read_file = (\<lambda>c txt. if txt = [] then Inr c else Inl (ValueError txt))\<rparr>"

text \<open>A fresh instance on that configuration, no catalog file existing yet.\<close>

definition sample_instance :: "world app_download" where
  "sample_instance =
     \<lparr>config = sample_config, catalog = [], app_set_file = [], catalog_file = None,
      plugin_world = sample_world\<rparr>"

text \<open>The same instance with a catalog holding a complete record for both products.\<close>

definition beta_props :: props where
  "beta_props =
     [(''name'', ''MakeMKV''),
      (''version'', ''1.2.0''),
      (''published'', ''2024-03-01''),
      (''target'', ''''),
      (''release_note'', ''http://www.makemkv.com/download/''),
      (''installer'', ''Setup_MakeMKV_v1.2.0.exe''),
      (''std_inst_args'', ''''),
      (''silent_inst_args'', ''/S''),
      (''update_available'', ''no''),
      (''update_version'', ''''),
      (''update_published'', '''')]"

definition sample_catalog :: ini where
  "sample_catalog = [(''alpha'', sample_props ''no''), (''beta'', beta_props)]"

definition export_instance :: "world app_download" where
  "export_instance = sample_instance\<lparr>catalog := sample_catalog\<rparr>"

text \<open>And with a catalog where \<open>alpha\<close>, or \<open>beta\<close>, was never recorded.\<close>

definition partial_instance :: "world app_download" where
  "partial_instance = sample_instance\<lparr>catalog := [(''beta'', beta_props)]\<rparr>"

definition late_partial_instance :: "world app_download" where
  "late_partial_instance = sample_instance\<lparr>catalog := [(''alpha'', sample_props ''no'')]\<rparr>"

text \<open>An instance whose catalog file holds the text of an earlier save.\<close>

definition saved_instance :: "world app_download" where
  "saved_instance =
     export_instance\<lparr>catalog_file :=
       Some (catalog_header ''2024-03-01T09:00:00'' @ sample_ini_write [(''beta'', beta_props)])\<rparr>"

section \<open>Facts about the catalog store\<close>

lemmas keynames =
  PROD_NAME_KEYNAME_def PROD_VERSION_KEYNAME_def PROD_PUBDATE_KEYNAME_def
  PROD_TARGET_KEYNAME_def PROD_REL_NOTE_URL_KEYNAME_def PROD_INSTALLER_KEYNAME_def
  PROD_STD_INSTALL_ARGS_KEYNAME_def PROD_SILENT_INSTALL_ARGS_KEYNAME_def
  PROD_UPDATE_AVAIL_KEYNAME_def PROD_UPDATE_VERSION_KEYNAME_def
  PROD_UPDATE_PUBDATE_KEYNAME_def

lemma set_option_last:
  "s \<notin> fst ` set c \<Longrightarrow> set_option (c @ [(s, d)]) s k v = c @ [(s, dict_set d k v)]"
  by (induction c) auto

lemma remove_section_notin: "s \<notin> fst ` set (remove_section cat s)"
  by (auto simp: remove_section_def)

lemma dump_fresh:
  assumes "s \<notin> fst ` set c"
  shows "(let c0 = add_section c s;
          c1 = set_option c0 s PROD_NAME_KEYNAME (name p);
          c2 = set_option c1 s PROD_VERSION_KEYNAME (version p);
          c3 = set_option c2 s PROD_PUBDATE_KEYNAME (published p);
          c4 = set_option c3 s PROD_TARGET_KEYNAME (target p);
          c5 = set_option c4 s PROD_REL_NOTE_URL_KEYNAME (release_note p);
          c6 = set_option c5 s PROD_INSTALLER_KEYNAME (installer p);
          c7 = set_option c6 s PROD_STD_INSTALL_ARGS_KEYNAME (std_inst_args p);
          c8 = set_option c7 s PROD_SILENT_INSTALL_ARGS_KEYNAME (silent_inst_arg p);
          c9 = (if update_available p
                then set_option c8 s PROD_UPDATE_AVAIL_KEYNAME ''yes''
                else set_option c8 s PROD_UPDATE_AVAIL_KEYNAME ''no'');
          c10 = set_option c9 s PROD_UPDATE_VERSION_KEYNAME (update_version p)
      in set_option c10 s PROD_UPDATE_PUBDATE_KEYNAME (update_published p)) =
         c @ [(s, dumped_props p)]"
  using assms by (simp add: Let_def add_section_def set_option_last dumped_props_def keynames)

text \<open>
  Dumping a product removes every section of that name and appends the new one, which
  holds the eleven keys.
\<close>

lemma dump_product_eq:
  "dump_product cat s p = remove_section cat s @ [(s, dumped_props p)]"
proof (cases "s \<in> set (sections cat)")
  case True
  then show ?thesis
    unfolding dump_product_def
    using dump_fresh[where c="remove_section cat s" and s=s and p=p]
      remove_section_notin[of s cat]
    by (simp add: Let_def)
next
  case False
  then have "remove_section cat s = cat"
    by (auto simp: remove_section_def sections_def filter_id_conv)
  moreover from False have "s \<notin> fst ` set cat" by (simp add: sections_def)
  ultimately show ?thesis
    unfolding dump_product_def using dump_fresh[where c=cat and s=s and p=p] False
    by (simp add: Let_def)
qed

lemma getitem_dump_product: "getitem (dump_product cat s p) s = Inr (dumped_props p)"
proof -
  have "map_of (remove_section cat s) s = None"
    using remove_section_notin[of s cat] by (simp add: map_of_eq_None_iff)
  then show ?thesis
    by (simp add: dump_product_eq getitem_def map_add_def)
qed

lemma sections_dump_product:
  "sections (dump_product cat s p) = filter (\<lambda>n. n \<noteq> s) (sections cat) @ [s]"
  by (simp add: dump_product_eq sections_def remove_section_def filter_map comp_def)

lemma getboolean_yes: "getboolean ''yes'' = Inr True"
  by (simp add: getboolean_def lower_def lower_char_def BOOLEAN_STATES_def)

lemma getboolean_no: "getboolean ''no'' = Inr False"
  by (simp add: getboolean_def lower_def lower_char_def BOOLEAN_STATES_def)

lemma getboolean_true: "getboolean ''true'' = Inr True"
  by (simp add: getboolean_def lower_def lower_char_def BOOLEAN_STATES_def)

lemma has_key:
  assumes "fst ` set r = set standard_keys" and "k \<in> set standard_keys"
  obtains v where "map_of r k = Some v"
proof -
  from assms have "k \<in> fst ` set r" by simp
  then have "map_of r k \<noteq> None" by (simp add: map_of_eq_None_iff)
  then show ?thesis using that by blast
qed

text \<open>Loading a section that holds all eleven keys sets every attribute they stand for.\<close>

lemma load_product_full:
  assumes "map_of cat s = Some r"
    and "map_of r PROD_NAME_KEYNAME = Some v1"
    and "map_of r PROD_VERSION_KEYNAME = Some v2"
    and "map_of r PROD_PUBDATE_KEYNAME = Some v3"
    and "map_of r PROD_TARGET_KEYNAME = Some v4"
    and "map_of r PROD_REL_NOTE_URL_KEYNAME = Some v5"
    and "map_of r PROD_INSTALLER_KEYNAME = Some v6"
    and "map_of r PROD_STD_INSTALL_ARGS_KEYNAME = Some v7"
    and "map_of r PROD_SILENT_INSTALL_ARGS_KEYNAME = Some v8"
    and "map_of r PROD_UPDATE_AVAIL_KEYNAME = Some v9"
    and "getboolean v9 = Inr b"
    and "map_of r PROD_UPDATE_VERSION_KEYNAME = Some v10"
    and "map_of r PROD_UPDATE_PUBDATE_KEYNAME = Some v11"
  shows "load_product cat s p0 =
     Inr (p0\<lparr>product_id := s, name := v1, version := v2, published := v3,
             target := v4, release_note := v5, installer := v6, std_inst_args := v7,
             silent_inst_arg := v8, update_available := b, update_version := v10,
             update_published := v11\<rparr>)"
  unfolding load_product_def
  by (simp add: assms)

text \<open>The section a dump writes, read key by key.\<close>

lemma map_of_dumped_props:
  "map_of (dumped_props p) PROD_NAME_KEYNAME = Some (name p)"
  "map_of (dumped_props p) PROD_VERSION_KEYNAME = Some (version p)"
  "map_of (dumped_props p) PROD_PUBDATE_KEYNAME = Some (published p)"
  "map_of (dumped_props p) PROD_TARGET_KEYNAME = Some (target p)"
  "map_of (dumped_props p) PROD_REL_NOTE_URL_KEYNAME = Some (release_note p)"
  "map_of (dumped_props p) PROD_INSTALLER_KEYNAME = Some (installer p)"
  "map_of (dumped_props p) PROD_STD_INSTALL_ARGS_KEYNAME = Some (std_inst_args p)"
  "map_of (dumped_props p) PROD_SILENT_INSTALL_ARGS_KEYNAME = Some (silent_inst_arg p)"
  "map_of (dumped_props p) PROD_UPDATE_AVAIL_KEYNAME =
     Some (if update_available p then ''yes'' else ''no'')"
  "map_of (dumped_props p) PROD_UPDATE_VERSION_KEYNAME = Some (update_version p)"
  "map_of (dumped_props p) PROD_UPDATE_PUBDATE_KEYNAME = Some (update_published p)"
  by (simp_all add: dumped_props_def keynames)

lemma map_of_dumped_props_other:
  "k \<notin> set standard_keys \<Longrightarrow> map_of (dumped_props p) k = None"
  by (simp add: standard_keys_def dumped_props_def keynames)

section \<open>Facts about the MakeMKV plugin\<close>

text \<open>When \<open>check_update\<close> returns normally, the temporary file it retrieved is gone.\<close>

lemma check_update_returns_releases:
  assumes "check_update env self w = (None, self', w')"
    and "temporary_retrieve env catalog_location = Inr f"
  shows "f \<notin> set (temp_files w')"
  using assms
  by (auto simp: check_update_def Let_def unlink_def
      split: sum.splits option.splits if_splits)

text \<open>\<open>is_update\<close> of the dummy plugin is the strict order of \<open>semver\<close> on the two versions.\<close>

lemma is_update_less:
  assumes "SemVer env (version self) = Inr a" and "SemVer env (version p) = Inr b"
  shows "is_update env self p = Inr (semver_less env a b)"
  using assms by (simp add: is_update_def)

section \<open>Facts about the export\<close>


lemmas confnames =
  APPS_LIST_SECTNAME_def APP_MODULE_KEYNAME_def APP_PATH_KEYNAME_def APP_SET_KEYNAME_def
  CORE_SECTNAME_def STORE_KEYNAME_def SETS_LIST_SECTNAME_def APPLIST_SEP_def

lemma map_of_file_write:
  "map_of (file_write fs c s) c' =
     (case map_of fs c' of
        None \<Rightarrow> None
      | Some ws \<Rightarrow> Some (if c' = c then ws @ [s] else ws))"
  by (induction fs) (auto simp: file_write_def)

lemma write_comps_Cons:
  "write_comps dt l (r # rs) fs = write_comps dt l rs (write_one dt l (strip r) fs)"
  by (simp add: write_one_def Let_def)

declare write_comps.simps(2) [simp del]

lemma map_of_write_one:
  "map_of (write_one dt l c fs) c' =
     (if c' = c
      then Some ((case map_of fs c of None \<Rightarrow> [applist_header dt c] | Some ws \<Rightarrow> ws) @ [l @ nl])
      else map_of fs c')"
  by (auto simp: write_one_def map_of_file_write map_add_def split: option.splits)

lemma grows_refl: "grows fs fs"
  by (auto simp: grows_def)

lemma grows_trans: "grows a b \<Longrightarrow> grows b c \<Longrightarrow> grows a c"
  unfolding grows_def by (metis append.assoc)

lemma grows_write_one: "grows fs (write_one dt l c fs)"
  unfolding grows_def by (auto simp: map_of_write_one)

lemma headed_write_one:
  assumes "headed dt fs"
  shows "headed dt (write_one dt l c fs)"
  unfolding headed_def
proof (intro allI impI)
  fix c' ws
  assume a: "map_of (write_one dt l c fs) c' = Some ws"
  show "\<exists>t. ws = applist_header dt c' # t"
  proof (cases "c' = c")
    case True
    show ?thesis
    proof (cases "map_of fs c")
      case None
      with a True show ?thesis by (auto simp: map_of_write_one)
    next
      case (Some old)
      with assms obtain t where "old = applist_header dt c # t"
        unfolding headed_def by blast
      with a True Some show ?thesis by (auto simp: map_of_write_one)
    qed
  next
    case False
    with a have "map_of fs c' = Some ws" by (simp add: map_of_write_one)
    with assms show ?thesis unfolding headed_def by blast
  qed
qed

lemma grows_write_comps: "grows fs (write_comps dt l cs fs)"
proof (induction cs arbitrary: fs)
  case Nil
  then show ?case by (simp add: grows_refl)
next
  case (Cons c cs)
  from grows_write_one Cons.IH show ?case
    unfolding write_comps_Cons by (rule grows_trans)
qed

lemma headed_write_comps: "headed dt fs \<Longrightarrow> headed dt (write_comps dt l cs fs)"
proof (induction cs arbitrary: fs)
  case Nil
  then show ?case by simp
next
  case (Cons c cs)
  then show ?case
    unfolding write_comps_Cons by (simp add: headed_write_one)
qed

text \<open>
  A component of the list gets the line appended to what its file held, or to its
  header when the file is new; the same component further down the list adds more.
\<close>

lemma write_comps_member:
  assumes "c \<in> set (map strip rs)"
  shows "\<exists>m. map_of (write_comps dt l rs fs) c =
           Some ((case map_of fs c of None \<Rightarrow> [applist_header dt c] | Some ws \<Rightarrow> ws)
                   @ [l @ nl] @ m)"
  using assms
proof (induction rs arbitrary: fs)
  case Nil
  then show ?case by simp
next
  case (Cons r rs)
  show ?case
  proof (cases "strip r = c")
    case True
    have "map_of (write_one dt l c fs) c =
        Some ((case map_of fs c of None \<Rightarrow> [applist_header dt c] | Some ws \<Rightarrow> ws) @ [l @ nl])"
      by (simp add: map_of_write_one)
    with grows_write_comps[of "write_one dt l c fs" dt l rs] obtain m where
      "map_of (write_comps dt l rs (write_one dt l c fs)) c =
        Some (((case map_of fs c of None \<Rightarrow> [applist_header dt c] | Some ws \<Rightarrow> ws) @ [l @ nl]) @ m)"
      unfolding grows_def by blast
    with True show ?thesis by (auto simp: write_comps_Cons)
  next
    case False
    with Cons.prems have "c \<in> set (map strip rs)" by auto
    from Cons.IH[OF this, of "write_one dt l (strip r) fs"] False show ?thesis
      by (simp add: write_comps_Cons map_of_write_one)
  qed
qed

lemma write_comps_member_headed:
  assumes "c \<in> set (map strip rs)" and "headed dt fs"
  shows "\<exists>t m. map_of (write_comps dt l rs fs) c =
           Some (applist_header dt c # t @ [l @ nl] @ m)"
proof -
  have "\<exists>t. (case map_of fs c of None \<Rightarrow> [applist_header dt c] | Some ws \<Rightarrow> ws)
           = applist_header dt c # t"
    using assms(2) unfolding headed_def by (cases "map_of fs c") auto
  with write_comps_member[OF assms(1), of dt l fs] show ?thesis
    by (metis append_Cons)
qed

lemma write_comps_member_old:
  assumes "c \<in> set (map strip rs)" and "map_of fs c = Some old"
  shows "\<exists>m. map_of (write_comps dt l rs fs) c = Some (old @ [l @ nl] @ m)"
  using write_comps_member[OF assms(1), of dt l fs] assms(2) by simp

lemma write_applist_app_frame:
  "config (snd (write_applist_app pf k st)) = config st
   \<and> catalog (snd (write_applist_app pf k st)) = catalog st
   \<and> catalog_file (snd (write_applist_app pf k st)) = catalog_file st"
  by (auto simp: write_applist_app_def split: sum.splits bool.splits)

lemma write_applist_app_raise:
  "write_applist_app pf k st = (Some e, st') \<Longrightarrow> st' = st"
  by (auto simp: write_applist_app_def split: sum.splits bool.splits)

lemma write_applist_app_grows:
  "grows (app_set_file st) (app_set_file (snd (write_applist_app pf k st)))"
  by (auto simp: write_applist_app_def grows_refl grows_write_comps split: sum.splits bool.splits)

lemma write_applist_app_headed:
  "headed (now_isoformat pf) (app_set_file st) \<Longrightarrow>
   headed (now_isoformat pf) (app_set_file (snd (write_applist_app pf k st)))"
  by (auto simp: write_applist_app_def headed_write_comps split: sum.splits bool.splits)

lemma write_applist_apps_append:
  "write_applist_apps pf (xs @ ys) st =
     (case write_applist_apps pf xs st of
        (Some e, st') \<Rightarrow> (Some e, st')
      | (None, st') \<Rightarrow> write_applist_apps pf ys st')"
  by (induction xs arbitrary: st) (auto split: prod.splits option.splits)

text \<open>What one enabled product with a complete record adds to the files.\<close>

lemma write_applist_app_enabled:
  assumes "enabled (config st) k = Inr True"
    and "getitem (catalog st) k = Inr d"
    and "app_line d = Inr l"
    and "getitem2 (config st) CORE_SECTNAME STORE_KEYNAME = Inr sp"
    and "getitem2 (config st) k APP_SET_KEYNAME = Inr sn"
    and "getitem2 (config st) SETS_LIST_SECTNAME sn = Inr comps"
  shows "write_applist_app pf k st =
           (None, st\<lparr>app_set_file :=
                      write_comps (now_isoformat pf) l (split CHR '','' comps)
                        (app_set_file st)\<rparr>)"
  using assms by (simp add: write_applist_app_def)

lemma lower_confnames:
  "lower APP_SET_KEYNAME = APP_SET_KEYNAME"
  "lower STORE_KEYNAME = STORE_KEYNAME"
  "lower APP_MODULE_KEYNAME = APP_MODULE_KEYNAME"
  by code_simp+

lemma check_apps_all:
  "check_apps cfg sets ks = None \<Longrightarrow> k \<in> set ks \<Longrightarrow> check_app cfg sets k = None"
  by (induction ks) (auto split: option.splits)

lemma write_applist_app_succeeds:
  assumes chk: "check_app (config st) sets k = None"
    and sets: "map_of (config st) SETS_LIST_SECTNAME = Some sets"
    and store: "getitem2 (config st) CORE_SECTNAME STORE_KEYNAME = Inr sp"
    and ex: "exportable (config st) (catalog st) k"
  shows "fst (write_applist_app pf k st) = None"
proof (cases "enabled (config st) k")
  case (Inl e)
  with ex show ?thesis by (simp add: exportable_def)
next
  case (Inr en)
  show ?thesis
  proof (cases en)
    case False
    with Inr show ?thesis by (simp add: write_applist_app_def)
  next
    case True
    from ex Inr True obtain d l where d: "getitem (catalog st) k = Inr d" "app_line d = Inr l"
      by (auto simp: exportable_def split: sum.splits)
    from chk Inr True obtain desc sn comps where
      "map_of (config st) k = Some desc" "map_of desc APP_SET_KEYNAME = Some sn"
      "map_of sets (lower sn) = Some comps"
      by (auto simp: check_app_def split: option.splits)
    then have "getitem2 (config st) k APP_SET_KEYNAME = Inr sn"
      "getitem2 (config st) SETS_LIST_SECTNAME sn = Inr comps"
      using sets by (simp_all add: getitem2_def getitem_def lower_confnames)
    with write_applist_app_enabled[OF _ d store] Inr True show ?thesis by simp
  qed
qed



lemma load_config_ok:
  assumes "load_config cfg = None"
  obtains sets sp apps where
    "map_of cfg SETS_LIST_SECTNAME = Some sets"
    "getitem2 cfg CORE_SECTNAME STORE_KEYNAME = Inr sp"
    "map_of cfg APPS_LIST_SECTNAME = Some apps"
    "check_apps cfg sets (map fst apps) = None"
  using assms
  by (auto simp: load_config_def getitem2_def getitem_def lower_confnames
      split: option.splits)

text \<open>
  The export loop over products that all pass: it returns normally, touches only the
  files, which grow and keep their headers.
\<close>

lemma write_applist_apps_succeeds:
  assumes "\<forall>k\<in>set ks. check_app (config st) sets k = None \<and> exportable (config st) (catalog st) k"
    and "map_of (config st) SETS_LIST_SECTNAME = Some sets"
    and "getitem2 (config st) CORE_SECTNAME STORE_KEYNAME = Inr sp"
  shows "\<exists>st'. write_applist_apps pf ks st = (None, st')
           \<and> config st' = config st \<and> catalog st' = catalog st
           \<and> grows (app_set_file st) (app_set_file st')
           \<and> (headed (now_isoformat pf) (app_set_file st)
                \<longrightarrow> headed (now_isoformat pf) (app_set_file st'))"
  using assms
proof (induction ks arbitrary: st)
  case Nil
  then show ?case by (simp add: grows_refl)
next
  case (Cons k ks)
  obtain r st1 where step: "write_applist_app pf k st = (r, st1)"
    by (cases "write_applist_app pf k st")
  have "fst (write_applist_app pf k st) = None"
    using Cons.prems by (intro write_applist_app_succeeds[where sets=sets and sp=sp]) simp_all
  with step have r: "r = None" by simp
  have fr: "config st1 = config st" "catalog st1 = catalog st"
    using write_applist_app_frame[of pf k st] step by simp_all
  have g1: "grows (app_set_file st) (app_set_file st1)"
    using write_applist_app_grows[of st pf k] step by simp
  have h1: "headed (now_isoformat pf) (app_set_file st) \<Longrightarrow>
            headed (now_isoformat pf) (app_set_file st1)"
    using write_applist_app_headed[of pf st k] step by simp
  from Cons.IH[of st1] Cons.prems fr obtain st' where
    rest: "write_applist_apps pf ks st1 = (None, st')"
      "config st' = config st1" "catalog st' = catalog st1"
      "grows (app_set_file st1) (app_set_file st')"
      "headed (now_isoformat pf) (app_set_file st1)
         \<longrightarrow> headed (now_isoformat pf) (app_set_file st')"
    by auto
  from step r rest fr g1 h1 show ?case
    by (auto intro: grows_trans)
qed



section \<open>Facts about the orchestrator\<close>

lemma check_update_app_frame:
  "config (snd (check_update_app pf k st)) = config st
   \<and> catalog_file (snd (check_update_app pf k st)) = catalog_file st
   \<and> app_set_file (snd (check_update_app pf k st)) = app_set_file st"
  by (auto simp: check_update_app_def split: sum.splits option.splits bool.splits prod.splits)

text \<open>A product whose check raises is not dumped: the catalog in memory keeps its record.\<close>

lemma check_update_app_raise_catalog:
  "check_update_app pf k st = (Some e, st') \<Longrightarrow> catalog st' = catalog st"
  by (auto simp: check_update_app_def split: sum.splits option.splits bool.splits prod.splits)

lemma check_update_apps_frame:
  "config (snd (check_update_apps pf ks st)) = config st
   \<and> catalog_file (snd (check_update_apps pf ks st)) = catalog_file st
   \<and> app_set_file (snd (check_update_apps pf ks st)) = app_set_file st"
proof (induction ks arbitrary: st)
  case Nil
  then show ?case by simp
next
  case (Cons k ks)
  show ?case
  proof (cases "check_update_app pf k st")
    case (Pair r st')
    with check_update_app_frame[of pf k st] Cons.IH[of st'] show ?thesis
      by (cases r) auto
  qed
qed

lemma check_update_apps_append:
  "check_update_apps pf (xs @ ys) st =
     (case check_update_apps pf xs st of
        (Some e, st') \<Rightarrow> (Some e, st')
      | (None, st') \<Rightarrow> check_update_apps pf ys st')"
  by (induction xs arbitrary: st) (auto split: prod.splits option.splits)

lemma read_catalog_frame:
  "config (snd (read_catalog pf st)) = config st
   \<and> catalog_file (snd (read_catalog pf st)) = catalog_file st
   \<and> app_set_file (snd (read_catalog pf st)) = app_set_file st"
  by (auto simp: read_catalog_def split: sum.splits option.splits)

lemma write_applist_apps_frame:
  "config (snd (write_applist_apps pf ks st)) = config st
   \<and> catalog (snd (write_applist_apps pf ks st)) = catalog st"
proof (induction ks arbitrary: st)
  case Nil
  then show ?case by simp
next
  case (Cons k ks)
  show ?case
  proof (cases "write_applist_app pf k st")
    case (Pair r st')
    with write_applist_app_frame[of pf k st] Cons.IH[of st'] show ?thesis
      by (cases r) auto
  qed
qed


section \<open>C1: a product whose check raises\<close>

text \<open>
  C1, as the code has it. The orchestrator does not catch what a product's
  \<open>check_update\<close> raises. Let the products configured before \<open>k\<close> be checked without
  exception and let the processing of \<open>k\<close> raise \<open>e\<close>. Then the run ends with \<open>e\<close> in the
  state reached at that point: the products before \<open>k\<close> have been dumped into the
  catalog in memory, the record of \<open>k\<close> there is untouched, the products after \<open>k\<close> are
  not processed, and nothing is fetched, saved or exported, so the catalog file is
  what it was before the run.
\<close>

theorem run_stops_at_failing_check:
  assumes cfg: "load_config (config st) = None"
    and rd: "read_catalog pf st = (None, st1)"
    and apps: "getitem (config st) APPS_LIST_SECTNAME = Inr apps"
    and order: "map fst apps = before @ k # after"
    and pre: "check_update_apps pf before st1 = (None, st2)"
    and k: "check_update_app pf k st2 = (Some e, st3)"
  shows "run pf st = (Some e, st3)
       \<and> catalog st3 = catalog st2
       \<and> catalog_file st3 = catalog_file st
       \<and> app_set_file st3 = app_set_file st"
proof -
  have c1: "config st1 = config st" and f1: "catalog_file st1 = catalog_file st"
    and a1: "app_set_file st1 = app_set_file st"
    using read_catalog_frame[of pf st] rd by simp_all
  have f2: "catalog_file st2 = catalog_file st1" and a2: "app_set_file st2 = app_set_file st1"
    using check_update_apps_frame[of pf before st1] pre by simp_all
  have f3: "catalog_file st3 = catalog_file st2" and a3: "app_set_file st3 = app_set_file st2"
    using check_update_app_frame[of pf k st2] k by simp_all
  have "check_update_apps pf (before @ k # after) st1 = (Some e, st3)"
    by (simp add: check_update_apps_append pre k)
  then have "check_update_all pf st1 = (Some e, st3)"
    by (simp add: check_update_all_def c1 apps order)
  then have "run pf st = (Some e, st3)"
    by (simp add: run_def cfg rd)
  with check_update_app_raise_catalog[OF k] f1 f2 f3 a1 a2 a3 show ?thesis by simp
qed

theorem run_stops_at_failing_check_witness:
  "run sample_platform sample_instance =
     (Some (PluginError ''metadata unavailable''), sample_instance)
   \<and> catalog sample_instance = catalog sample_instance
   \<and> catalog_file sample_instance = catalog_file sample_instance
   \<and> app_set_file sample_instance = app_set_file sample_instance"
proof -
  have h1: "load_config (config sample_instance) = None"
    by code_simp
  have h2: "read_catalog sample_platform sample_instance = (None, sample_instance)"
    by code_simp
  have h3: "getitem (config sample_instance) APPS_LIST_SECTNAME =
              Inr [(''alpha'', ''yes''), (''beta'', ''yes'')]"
    by code_simp
  have h4: "map fst [(''alpha'', ''yes''), (''beta'', ''yes'')] = [] @ ''alpha'' # [''beta'']"
    by simp
  have h5: "check_update_apps sample_platform [] sample_instance = (None, sample_instance)"
    by simp
  have h6: "check_update_app sample_platform ''alpha'' sample_instance =
              (Some (PluginError ''metadata unavailable''), sample_instance)"
    by code_simp
  from run_stops_at_failing_check[OF h1 h2 h3 h4 h5 h6] show ?thesis .
qed

text \<open>
  As stated, C1 fails. Both products are enabled; the check of \<open>alpha\<close> raises, the
  check of \<open>beta\<close> would not. The run ends with the exception of \<open>alpha\<close>: no catalog
  file has been written and the catalog holds no record of \<open>beta\<close>.
\<close>

theorem run_failing_check_counterexample:
  "enabled (config sample_instance) ''alpha'' = Inr True
   \<and> enabled (config sample_instance) ''beta'' = Inr True
   \<and> fst (check_update_app sample_platform ''alpha'' sample_instance) =
        Some (PluginError ''metadata unavailable'')
   \<and> fst (check_update_app sample_platform ''beta'' sample_instance) = None
   \<and> run sample_platform sample_instance =
        (Some (PluginError ''metadata unavailable''),
         sample_instance\<lparr>catalog := [], catalog_file := None\<rparr>)"
  by code_simp

section \<open>C2: how the catalog file is written\<close>

text \<open>
  C2, as the code has it. A save rewrites the catalog file in place. Stopped before
  its first step it leaves the file as it was; after the \<open>open\<close> the file is empty;
  after the next step it holds the header only; when the save completes it holds
  the header followed by the text of the current catalog.
\<close>

theorem write_catalog_steps:
  "catalog_file_after pf st 0 = catalog_file st
   \<and> catalog_file_after pf st 1 = Some []
   \<and> catalog_file_after pf st 2 = Some (catalog_header (now_isoformat pf))
   \<and> catalog_file_after pf st 3 =
       Some (catalog_header (now_isoformat pf) @ ini_write pf (catalog st))
   \<and> catalog_file (write_catalog pf st) =
       Some (catalog_header (now_isoformat pf) @ ini_write pf (catalog st))"
  by (simp add: catalog_file_after_def write_catalog_def write_catalog_ops_def
      eval_nat_numeral)

theorem write_catalog_steps_witness:
  "catalog_file_after sample_platform saved_instance 2 =
     Some (catalog_header ''2024-03-02T10:00:00'')
   \<and> catalog_file (write_catalog sample_platform saved_instance) =
     Some (catalog_header ''2024-03-02T10:00:00'' @ sample_ini_write sample_catalog)"
  using write_catalog_steps[of sample_platform saved_instance]
  by (simp add: sample_platform_def saved_instance_def export_instance_def)

text \<open>
  As stated, C2 fails: a save that stops right after the \<open>open\<close> leaves an empty file,
  which is neither the text of the earlier save nor the text of this one.
\<close>

theorem write_catalog_counterexample:
  "catalog_file_after sample_platform saved_instance 1 = Some []
   \<and> catalog_file_after sample_platform saved_instance 1 \<noteq> catalog_file saved_instance
   \<and> catalog_file_after sample_platform saved_instance 1 \<noteq>
       catalog_file (write_catalog sample_platform saved_instance)"
  by code_simp

section \<open>C3: loading a section and dumping it back\<close>

text \<open>
  C3, as the code has it. Take a catalog section \<open>r\<close> that holds exactly the eleven
  standard keys and whose \<open>update_available\<close> is spelled \<open>yes\<close> or \<open>no\<close>. Loading it into
  a product object and dumping that object back succeeds and gives a section equal to
  \<open>r\<close> field for field, whatever the object held before.
\<close>

theorem load_then_dump_roundtrip:
  assumes sec: "map_of cat s = Some r"
    and keys: "fst ` set r = set standard_keys"
    and ua: "map_of r PROD_UPDATE_AVAIL_KEYNAME = Some ''yes'' \<or>
             map_of r PROD_UPDATE_AVAIL_KEYNAME = Some ''no''"
  shows "\<exists>r'. load_then_dump cat s p0 = Inr r' \<and> map_of r' = map_of r"
proof -
  obtain v1 where v1: "map_of r PROD_NAME_KEYNAME = Some v1"
    using has_key[OF keys, of PROD_NAME_KEYNAME] by (auto simp: standard_keys_def)
  obtain v2 where v2: "map_of r PROD_VERSION_KEYNAME = Some v2"
    using has_key[OF keys, of PROD_VERSION_KEYNAME] by (auto simp: standard_keys_def)
  obtain v3 where v3: "map_of r PROD_PUBDATE_KEYNAME = Some v3"
    using has_key[OF keys, of PROD_PUBDATE_KEYNAME] by (auto simp: standard_keys_def)
  obtain v4 where v4: "map_of r PROD_TARGET_KEYNAME = Some v4"
    using has_key[OF keys, of PROD_TARGET_KEYNAME] by (auto simp: standard_keys_def)
  obtain v5 where v5: "map_of r PROD_REL_NOTE_URL_KEYNAME = Some v5"
    using has_key[OF keys, of PROD_REL_NOTE_URL_KEYNAME] by (auto simp: standard_keys_def)
  obtain v6 where v6: "map_of r PROD_INSTALLER_KEYNAME = Some v6"
    using has_key[OF keys, of PROD_INSTALLER_KEYNAME] by (auto simp: standard_keys_def)
  obtain v7 where v7: "map_of r PROD_STD_INSTALL_ARGS_KEYNAME = Some v7"
    using has_key[OF keys, of PROD_STD_INSTALL_ARGS_KEYNAME] by (auto simp: standard_keys_def)
  obtain v8 where v8: "map_of r PROD_SILENT_INSTALL_ARGS_KEYNAME = Some v8"
    using has_key[OF keys, of PROD_SILENT_INSTALL_ARGS_KEYNAME] by (auto simp: standard_keys_def)
  obtain v10 where v10: "map_of r PROD_UPDATE_VERSION_KEYNAME = Some v10"
    using has_key[OF keys, of PROD_UPDATE_VERSION_KEYNAME] by (auto simp: standard_keys_def)
  obtain v11 where v11: "map_of r PROD_UPDATE_PUBDATE_KEYNAME = Some v11"
    using has_key[OF keys, of PROD_UPDATE_PUBDATE_KEYNAME] by (auto simp: standard_keys_def)
  define b where "b = (map_of r PROD_UPDATE_AVAIL_KEYNAME = Some ''yes'')"
  have v9: "map_of r PROD_UPDATE_AVAIL_KEYNAME = Some (if b then ''yes'' else ''no'')"
    using ua by (auto simp: b_def)
  have gb: "getboolean (if b then ''yes'' else ''no'') = Inr b"
    by (simp add: getboolean_yes getboolean_no)
  define p where "p = p0\<lparr>product_id := s, name := v1, version := v2, published := v3,
     target := v4, release_note := v5, installer := v6, std_inst_args := v7,
     silent_inst_arg := v8, update_available := b, update_version := v10,
     update_published := v11\<rparr>"
  have ld: "load_product cat s p0 = Inr p"
    unfolding p_def by (rule load_product_full[OF sec v1 v2 v3 v4 v5 v6 v7 v8 v9 gb v10 v11])
  have each:
    "map_of (dumped_props p) PROD_NAME_KEYNAME = map_of r PROD_NAME_KEYNAME"
    "map_of (dumped_props p) PROD_VERSION_KEYNAME = map_of r PROD_VERSION_KEYNAME"
    "map_of (dumped_props p) PROD_PUBDATE_KEYNAME = map_of r PROD_PUBDATE_KEYNAME"
    "map_of (dumped_props p) PROD_TARGET_KEYNAME = map_of r PROD_TARGET_KEYNAME"
    "map_of (dumped_props p) PROD_REL_NOTE_URL_KEYNAME = map_of r PROD_REL_NOTE_URL_KEYNAME"
    "map_of (dumped_props p) PROD_INSTALLER_KEYNAME = map_of r PROD_INSTALLER_KEYNAME"
    "map_of (dumped_props p) PROD_STD_INSTALL_ARGS_KEYNAME =
       map_of r PROD_STD_INSTALL_ARGS_KEYNAME"
    "map_of (dumped_props p) PROD_SILENT_INSTALL_ARGS_KEYNAME =
       map_of r PROD_SILENT_INSTALL_ARGS_KEYNAME"
    "map_of (dumped_props p) PROD_UPDATE_AVAIL_KEYNAME = map_of r PROD_UPDATE_AVAIL_KEYNAME"
    "map_of (dumped_props p) PROD_UPDATE_VERSION_KEYNAME = map_of r PROD_UPDATE_VERSION_KEYNAME"
    "map_of (dumped_props p) PROD_UPDATE_PUBDATE_KEYNAME = map_of r PROD_UPDATE_PUBDATE_KEYNAME"
    by (simp_all add: map_of_dumped_props p_def v1 v2 v3 v4 v5 v6 v7 v8 v9 v10 v11)
  have "map_of (dumped_props p) k = map_of r k" for k
  proof (cases "k \<in> set standard_keys")
    case True
    then have "k = PROD_NAME_KEYNAME \<or> k = PROD_VERSION_KEYNAME \<or> k = PROD_PUBDATE_KEYNAME
        \<or> k = PROD_TARGET_KEYNAME \<or> k = PROD_REL_NOTE_URL_KEYNAME
        \<or> k = PROD_INSTALLER_KEYNAME \<or> k = PROD_STD_INSTALL_ARGS_KEYNAME
        \<or> k = PROD_SILENT_INSTALL_ARGS_KEYNAME \<or> k = PROD_UPDATE_AVAIL_KEYNAME
        \<or> k = PROD_UPDATE_VERSION_KEYNAME \<or> k = PROD_UPDATE_PUBDATE_KEYNAME"
      by (simp add: standard_keys_def)
    with each show ?thesis by blast
  next
    case False
    then have "k \<notin> fst ` set r" using keys by simp
    then have "map_of r k = None" by (simp add: map_of_eq_None_iff)
    with map_of_dumped_props_other[OF False, of p] show ?thesis by simp
  qed
  then have "map_of (dumped_props p) = map_of r" by (rule ext)
  then show ?thesis
    by (simp add: load_then_dump_def ld getitem_dump_product)
qed

theorem load_then_dump_roundtrip_witness:
  "map_of [(''sample'', sample_props ''yes'')] ''sample'' = Some (sample_props ''yes'')
   \<and> fst ` set (sample_props ''yes'') = set standard_keys
   \<and> map_of (sample_props ''yes'') PROD_UPDATE_AVAIL_KEYNAME = Some ''yes''
   \<and> (\<exists>r'. load_then_dump [(''sample'', sample_props ''yes'')] ''sample'' blank_product = Inr r'
          \<and> map_of r' = map_of (sample_props ''yes''))"
proof -
  have h1: "map_of [(''sample'', sample_props ''yes'')] ''sample'' = Some (sample_props ''yes'')"
    by simp
  have h2: "fst ` set (sample_props ''yes'') = set standard_keys"
    by (simp add: sample_props_def standard_keys_def keynames)
  have h3: "map_of (sample_props ''yes'') PROD_UPDATE_AVAIL_KEYNAME = Some ''yes''"
    by (simp add: sample_props_def keynames)
  from load_then_dump_roundtrip[OF h1 h2 disjI1[OF h3], of blank_product] h1 h2 h3
  show ?thesis by blast
qed

text \<open>
  As stated for every section with the eleven keys, C3 fails: \<open>getboolean\<close> accepts
  \<open>true\<close> for \<open>update_available\<close>, and the dump writes \<open>yes\<close>.
\<close>

theorem load_then_dump_counterexample:
  "map fst (sample_props ''true'') = standard_keys
   \<and> load_then_dump [(''sample'', sample_props ''true'')] ''sample'' blank_product
       = Inr (sample_props ''yes'')
   \<and> getitem (sample_props ''true'') ''update_available'' = Inr ''true''
   \<and> getitem (sample_props ''yes'') ''update_available'' = Inr ''yes''"
proof -
  have "load_product [(''sample'', sample_props ''true'')] ''sample'' blank_product =
      Inr (blank_product\<lparr>product_id := ''sample'', name := ''Sample'', version := ''1.0.0'',
         published := ''2024-01-15'', target := ''unified'',
         release_note := ''http://www.example.com/release_note.txt'',
         installer := ''sample-1.0.0.exe'', std_inst_args := '''', silent_inst_arg := ''/S'',
         update_available := True, update_version := ''1.2.0'',
         update_published := ''2024-03-01''\<rparr>)"
    by (simp add: load_product_def sample_props_def keynames getboolean_true)
  then have "load_then_dump [(''sample'', sample_props ''true'')] ''sample'' blank_product
       = Inr (sample_props ''yes'')"
    by (simp add: load_then_dump_def getitem_dump_product dumped_props_def sample_props_def
        keynames)
  then show ?thesis
    by (simp add: sample_props_def standard_keys_def keynames getitem_def)
qed

section \<open>C4: a failed retrieval changes nothing\<close>

text \<open>
  C4. Take a product with a pending update (\<open>self.update\<close> is a candidate). If the
  retrieval of the installer fails, \<open>fetch_update\<close> raises that failure and leaves the
  object as it was before the call: every current-install attribute has its former
  value, the pending candidate is still set with the same attributes, and
  \<open>update_available\<close> is as before, so it is still true where it was. Nothing has been
  stored either.
\<close>

theorem fetch_update_failure:
  assumes "update self = Some c"
    and "file_retrieve env (cand_location c) path = Inl e"
  shows "fetch_update env self path w = (Some e, self, w)"
  using assms by (simp add: fetch_update_def)

theorem fetch_update_failure_witness:
  "update (blank_product\<lparr>version := ''1.0.0'', update_available := True,
       update := Some (sample_candidate\<lparr>cand_version := ''1.2.0''\<rparr>)\<rparr>)
     = Some (sample_candidate\<lparr>cand_version := ''1.2.0''\<rparr>)
   \<and> file_retrieve sample_env (cand_location (sample_candidate\<lparr>cand_version := ''1.2.0''\<rparr>))
        ''store/makemkv'' = Inl (PluginError ''retrieval failed'')
   \<and> fetch_update sample_env
        (blank_product\<lparr>version := ''1.0.0'', update_available := True,
           update := Some (sample_candidate\<lparr>cand_version := ''1.2.0''\<rparr>)\<rparr>)
        ''store/makemkv'' sample_world
     = (Some (PluginError ''retrieval failed''),
        blank_product\<lparr>version := ''1.0.0'', update_available := True,
           update := Some (sample_candidate\<lparr>cand_version := ''1.2.0''\<rparr>)\<rparr>,
        sample_world)"
proof -
  have h1: "update (blank_product\<lparr>version := ''1.0.0'', update_available := True,
       update := Some (sample_candidate\<lparr>cand_version := ''1.2.0''\<rparr>)\<rparr>)
     = Some (sample_candidate\<lparr>cand_version := ''1.2.0''\<rparr>)"
    by simp
  have h2: "file_retrieve sample_env
        (cand_location (sample_candidate\<lparr>cand_version := ''1.2.0''\<rparr>))
        ''store/makemkv'' = Inl (PluginError ''retrieval failed'')"
    by (simp add: sample_env_def)
  from fetch_update_failure[OF h1 h2, of sample_world] h1 h2 show ?thesis
    by blast
qed

section \<open>C5: when a check records a candidate\<close>

text \<open>
  C5. Suppose the metadata file is retrieved and parsed, a candidate version \<open>v\<close> is
  found in it, both the current version and \<open>v\<close> are versions for \<open>semver\<close>, and the
  release date can be read where it is asked for. Then \<open>check_update\<close> returns normally, and it records a
  candidate, carrying the version \<open>v\<close>, exactly when the current version is strictly
  less than \<open>v\<close>; otherwise no update is recorded. The current version of the product
  is the same after the call in both cases.
\<close>

theorem check_update_candidate:
  assumes "temporary_retrieve env catalog_location = Inr f"
    and "parse env f = Inr pad_find"
    and "get_version pad_find = Some v"
    and "SemVer env (version self) = Inr local_version"
    and "SemVer env v = Inr remote_version"
    and "semver_less env local_version remote_version \<Longrightarrow>
         get_release_date env pad_find = Inr d"
  shows "check_update env self w =
           (None,
            self\<lparr>update :=
              (if semver_less env local_version remote_version
               then Some ((Product_init env)\<lparr>cand_version := v, cand_published := d,
                            cand_location := get_location pad_find\<rparr>)
               else None)\<rparr>,
            unlink (w\<lparr>temp_files := f # temp_files w\<rparr>) f)
       \<and> (update (fst (snd (check_update env self w))) \<noteq> None)
            = semver_less env local_version remote_version
       \<and> version (fst (snd (check_update env self w))) = version self"
  using assms by (simp add: check_update_def Let_def)

theorem check_update_candidate_witness:
  "temporary_retrieve sample_env catalog_location = Inr ''/tmp/tmp0001''
   \<and> parse sample_env ''/tmp/tmp0001'' = Inr sample_pad
   \<and> get_version sample_pad = Some ''1.2.0''
   \<and> SemVer sample_env (version (blank_product\<lparr>version := ''1.0.0''\<rparr>)) = Inr 100
   \<and> SemVer sample_env ''1.2.0'' = Inr 120
   \<and> get_release_date sample_env sample_pad = Inr (Some ''2024-03-01'')
   \<and> semver_less sample_env 100 120
   \<and> update (fst (snd (check_update sample_env (blank_product\<lparr>version := ''1.0.0''\<rparr>)
         sample_world))) \<noteq> None
   \<and> version (fst (snd (check_update sample_env (blank_product\<lparr>version := ''1.0.0''\<rparr>)
         sample_world))) = ''1.0.0''"
proof -
  have h1: "temporary_retrieve sample_env catalog_location = Inr ''/tmp/tmp0001''"
    by (simp add: sample_env_def)
  have h2: "parse sample_env ''/tmp/tmp0001'' = Inr sample_pad"
    by (simp add: sample_env_def)
  have h3: "get_version sample_pad = Some ''1.2.0''"
    by (simp add: get_version_def sample_pad_def)
  have h4: "SemVer sample_env (version (blank_product\<lparr>version := ''1.0.0''\<rparr>)) = Inr 100"
    by (simp add: sample_env_def)
  have h5: "SemVer sample_env ''1.2.0'' = Inr 120"
    by (simp add: sample_env_def)
  have h6: "get_release_date sample_env sample_pad = Inr (Some ''2024-03-01'')"
    by (simp add: get_release_date_def sample_pad_def sample_env_def)
  have h7: "semver_less sample_env 100 120"
    by (simp add: sample_env_def)
  have h8: "version (blank_product\<lparr>version := ''1.0.0''\<rparr>) = ''1.0.0''"
    by simp
  from check_update_candidate[OF h1 h2 h3 h4 h5 h6, of sample_world] h1 h2 h3 h4 h5 h6 h7 h8
  show ?thesis by metis
qed

section \<open>C6: nothing to fetch\<close>

text \<open>
  C6. When no candidate is recorded (\<open>self.update\<close> is \<open>None\<close>), \<open>fetch_update\<close> returns
  without raising, whatever the collaborators are: no retrieval is made, nothing is
  stored, and the object is unchanged.
\<close>

theorem fetch_update_nothing:
  assumes "update self = None"
  shows "fetch_update env self path w = (None, self, w)"
  using assms by (simp add: fetch_update_def)

theorem fetch_update_nothing_witness:
  "update blank_product = None
   \<and> fetch_update sample_env blank_product ''store/makemkv'' sample_world
       = (None, blank_product, sample_world)"
proof -
  have h: "update blank_product = None"
    by (simp add: blank_product_def)
  from fetch_update_nothing[OF h, of sample_env "''store/makemkv''" sample_world] h
  show ?thesis by blast
qed

section \<open>C7: the temporary metadata file\<close>

text \<open>
  C7 asks that the temporary copy of the metadata be released on every exit path of
  \<open>check_update\<close>. Here the file is retrieved and the PAD parser rejects it: the
  call raises the parser's exception and the temporary file is still there.
\<close>

theorem check_update_parser_failure_leaks:
  "check_update bad_pad_env (blank_product\<lparr>version := ''1.0.0''\<rparr>) sample_world =
     (Some (PluginError ''malformed PAD file''),
      blank_product\<lparr>version := ''1.0.0'', update := None\<rparr>,
      \<lparr>temp_files = [''/tmp/tmp0001''], stored_files = []\<rparr>)"
  by (simp add: check_update_def bad_pad_env_def sample_env_def sample_world_def Let_def)

section \<open>C8: a record that lacks an export field\<close>

text \<open>
  C8, as the code has it. Let \<open>k\<close> be an enabled product whose record is missing from
  the catalog or lacks one of the five exported fields, so that building its line
  raises \<open>e\<close> (a \<open>KeyError\<close>), and let the products configured before \<open>k\<close> be exported
  without exception. Then the export pass ends with \<open>e\<close> in the state reached after
  those products: their lines are in the files, and neither \<open>k\<close> nor any product
  configured after it is exported.
\<close>

theorem write_applist_stops_at_missing_field:
  assumes apps: "getitem (config st) APPS_LIST_SECTNAME = Inr apps"
    and order: "map fst apps = before @ k # after"
    and pre: "write_applist_apps pf before st = (None, st1)"
    and en: "enabled (config st) k = Inr True"
    and miss: "getitem (catalog st) k = Inl e
               \<or> (\<exists>d. getitem (catalog st) k = Inr d \<and> app_line d = Inl e)"
  shows "write_applist pf st = (Some e, st1)"
proof -
  have fr: "config st1 = config st" "catalog st1 = catalog st"
    using write_applist_apps_frame[of pf before st] pre by simp_all
  from miss have "write_applist_app pf k st1 = (Some e, st1)"
    by (auto simp: write_applist_app_def fr en)
  then have "write_applist_apps pf (before @ k # after) st = (Some e, st1)"
    by (simp add: write_applist_apps_append pre)
  then show ?thesis
    by (simp add: write_applist_def apps order)
qed

theorem write_applist_stops_at_missing_field_witness:
  "write_applist sample_platform late_partial_instance =
     (Some (KeyError ''beta''),
      snd (write_applist_apps sample_platform [''alpha''] late_partial_instance))
   \<and> map fst (app_set_file
        (snd (write_applist_apps sample_platform [''alpha''] late_partial_instance)))
       = [''c1'', ''c2'']"
proof -
  have h1: "getitem (config late_partial_instance) APPS_LIST_SECTNAME =
              Inr [(''alpha'', ''yes''), (''beta'', ''yes'')]"
    by code_simp
  have h2: "map fst [(''alpha'', ''yes''), (''beta'', ''yes'')] = [''alpha''] @ ''beta'' # []"
    by simp
  have "fst (write_applist_apps sample_platform [''alpha''] late_partial_instance) = None"
    by code_simp
  then have h3: "write_applist_apps sample_platform [''alpha''] late_partial_instance =
      (None, snd (write_applist_apps sample_platform [''alpha''] late_partial_instance))"
    by (simp add: prod_eq_iff)
  have h4: "enabled (config late_partial_instance) ''beta'' = Inr True"
    by code_simp
  have "getitem (catalog late_partial_instance) ''beta'' = Inl (KeyError ''beta'')"
    by code_simp
  then have h5: "getitem (catalog late_partial_instance) ''beta'' = Inl (KeyError ''beta'')
      \<or> (\<exists>d. getitem (catalog late_partial_instance) ''beta'' = Inr d
               \<and> app_line d = Inl (KeyError ''beta''))"
    by (rule disjI1)
  have h6: "map fst (app_set_file
        (snd (write_applist_apps sample_platform [''alpha''] late_partial_instance)))
       = [''c1'', ''c2'']"
    by code_simp
  from write_applist_stops_at_missing_field[OF h1 h2 h3 h4 h5] h6 show ?thesis
    by (rule conjI)
qed

text \<open>
  As stated, C8 fails. Both products are enabled, \<open>alpha\<close> has no record and \<open>beta\<close>
  has a complete one. The export ends with the \<open>KeyError\<close> of \<open>alpha\<close> and no file has
  been opened: the line of \<open>beta\<close> is not exported.
\<close>

theorem write_applist_missing_field_counterexample:
  "enabled (config partial_instance) ''alpha'' = Inr True
   \<and> enabled (config partial_instance) ''beta'' = Inr True
   \<and> getitem (catalog partial_instance) ''alpha'' = Inl (KeyError ''alpha'')
   \<and> exportable (config partial_instance) (catalog partial_instance) ''beta''
   \<and> write_applist sample_platform partial_instance =
        (Some (KeyError ''alpha''), partial_instance\<lparr>app_set_file := []\<rparr>)"
  by code_simp

section \<open>C9: two products of one set\<close>

text \<open>
  C9. Take a fresh instance with a validated configuration in which every enabled
  product has a record with the five exported fields. Let \<open>a\<close> and \<open>b\<close> be enabled
  products, \<open>a\<close> configured before \<open>b\<close>, both mapped to the set \<open>s\<close> whose component list
  is \<open>[c1, c2]\<close>. Then the export returns normally, and
  the file of \<open>c1\<close> as well as the file of \<open>c2\<close> starts with the generated header of
  its component, followed by lines among which the line of \<open>a\<close> (target, name,
  version, installer, silent arguments, separated by semicolons) comes before the
  line of \<open>b\<close>.
\<close>

theorem write_applist_grouping:
  assumes fresh: "app_set_file st = []"
    and cfg: "load_config (config st) = None"
    and apps: "getitem (config st) APPS_LIST_SECTNAME = Inr apps"
    and order: "map fst apps = before @ a # between @ b # after"
    and complete: "\<forall>k\<in>set (map fst apps). exportable (config st) (catalog st) k"
    and ea: "enabled (config st) a = Inr True"
    and eb: "enabled (config st) b = Inr True"
    and da: "getitem (catalog st) a = Inr da" and la: "app_line da = Inr la"
    and db: "getitem (catalog st) b = Inr db" and lb: "app_line db = Inr lb"
    and sa: "getitem2 (config st) a APP_SET_KEYNAME = Inr s"
    and sb: "getitem2 (config st) b APP_SET_KEYNAME = Inr s"
    and comps: "getitem2 (config st) SETS_LIST_SECTNAME s = Inr comps"
    and two: "map strip (split CHR '','' comps) = [c1, c2]"
  shows "\<exists>st'. write_applist pf st = (None, st')
           \<and> (\<forall>c\<in>{c1, c2}. \<exists>t m p.
                 map_of (app_set_file st') c =
                   Some (applist_header (now_isoformat pf) c #
                           t @ [la @ nl] @ m @ [lb @ nl] @ p))"
proof -
  let ?dt = "now_isoformat pf"
  from cfg obtain sets sp apps' where ok:
    "map_of (config st) SETS_LIST_SECTNAME = Some sets"
    "getitem2 (config st) CORE_SECTNAME STORE_KEYNAME = Inr sp"
    "map_of (config st) APPS_LIST_SECTNAME = Some apps'"
    "check_apps (config st) sets (map fst apps') = None"
    by (rule load_config_ok)
  from ok(3) apps have "apps' = apps" by (simp add: getitem_def)
  with ok(4) have chk: "\<forall>k\<in>set (map fst apps). check_app (config st) sets k = None"
    using check_apps_all by blast
  have pass: "\<forall>k\<in>set ks. check_app (config st) sets k = None
                 \<and> exportable (config st) (catalog st) k"
    if "set ks \<subseteq> set (map fst apps)" for ks
    using that chk complete by blast
  \<comment> \<open>the products before \<open>a\<close>\<close>
  have "set before \<subseteq> set (map fst apps)" using order by auto
  from write_applist_apps_succeeds[OF pass[OF this] ok(1,2), of pf] obtain s1 where s1:
    "write_applist_apps pf before st = (None, s1)"
    "config s1 = config st" "catalog s1 = catalog st"
    "headed ?dt (app_set_file st) \<longrightarrow> headed ?dt (app_set_file s1)"
    by blast
  have h1: "headed ?dt (app_set_file s1)"
    using s1(4) fresh by (simp add: headed_def)
  \<comment> \<open>the product \<open>a\<close>\<close>
  define s2 where "s2 = s1\<lparr>app_set_file :=
      write_comps ?dt la (split CHR '','' comps) (app_set_file s1)\<rparr>"
  have a: "write_applist_app pf a s1 = (None, s2)"
    unfolding s2_def
    using write_applist_app_enabled[of s1 a da la sp s comps pf] ea da la ok(2) sa comps s1(2,3)
    by simp
  have s2: "config s2 = config st" "catalog s2 = catalog st"
    by (simp_all add: s2_def s1)
  \<comment> \<open>the products between \<open>a\<close> and \<open>b\<close>\<close>
  have "set between \<subseteq> set (map fst apps)" using order by auto
  from pass[OF this] have "\<forall>k\<in>set between. check_app (config s2) sets k = None
      \<and> exportable (config s2) (catalog s2) k" by (simp add: s2)
  from write_applist_apps_succeeds[OF this, of sp pf] ok(1,2) s2 obtain s3 where s3:
    "write_applist_apps pf between s2 = (None, s3)"
    "config s3 = config st" "catalog s3 = catalog st"
    "grows (app_set_file s2) (app_set_file s3)"
    by auto
  \<comment> \<open>the product \<open>b\<close>\<close>
  define s4 where "s4 = s3\<lparr>app_set_file :=
      write_comps ?dt lb (split CHR '','' comps) (app_set_file s3)\<rparr>"
  have b: "write_applist_app pf b s3 = (None, s4)"
    unfolding s4_def
    using write_applist_app_enabled[of s3 b db lb sp s comps pf] eb db lb ok(2) sb comps s3(2,3)
    by simp
  have s4: "config s4 = config st" "catalog s4 = catalog st"
    by (simp_all add: s4_def s3)
  \<comment> \<open>the products after \<open>b\<close>\<close>
  have "set after \<subseteq> set (map fst apps)" using order by auto
  from pass[OF this] have "\<forall>k\<in>set after. check_app (config s4) sets k = None
      \<and> exportable (config s4) (catalog s4) k" by (simp add: s4)
  from write_applist_apps_succeeds[OF this, of sp pf] ok(1,2) s4 obtain s5 where s5:
    "write_applist_apps pf after s4 = (None, s5)"
    "grows (app_set_file s4) (app_set_file s5)"
    by auto
  \<comment> \<open>the whole loop\<close>
  have "write_applist_apps pf (before @ a # between @ b # after) st = (None, s5)"
    using s1(1) a s3(1) b s5(1)
    by (simp add: write_applist_apps_append)
  then have run: "write_applist pf st = (None, s5)"
    by (simp add: write_applist_def apps order)
  \<comment> \<open>the content of the two files\<close>
  have "\<exists>t m p. map_of (app_set_file s5) c =
          Some (applist_header ?dt c # t @ [la @ nl] @ m @ [lb @ nl] @ p)"
    if c: "c \<in> {c1, c2}" for c
  proof -
    from c two have mem: "c \<in> set (map strip (split CHR '','' comps))" by auto
    from write_comps_member_headed[OF mem h1, of la] obtain t m0 where
      f2: "map_of (app_set_file s2) c = Some (applist_header ?dt c # t @ [la @ nl] @ m0)"
      by (auto simp: s2_def)
    with s3(4) obtain m1 where
      f3: "map_of (app_set_file s3) c =
             Some ((applist_header ?dt c # t @ [la @ nl] @ m0) @ m1)"
      unfolding grows_def by blast
    from write_comps_member_old[OF mem f3, of ?dt lb] obtain m2 where
      f4: "map_of (app_set_file s4) c =
             Some (((applist_header ?dt c # t @ [la @ nl] @ m0) @ m1) @ [lb @ nl] @ m2)"
      by (auto simp: s4_def)
    with s5(2) obtain m3 where
      "map_of (app_set_file s5) c =
         Some ((((applist_header ?dt c # t @ [la @ nl] @ m0) @ m1) @ [lb @ nl] @ m2) @ m3)"
      unfolding grows_def by blast
    then have "map_of (app_set_file s5) c =
         Some (applist_header ?dt c # t @ [la @ nl] @ (m0 @ m1) @ [lb @ nl] @ (m2 @ m3))"
      by simp
    then show ?thesis by blast
  qed
  with run show ?thesis by blast
qed


theorem write_applist_grouping_witness:
  "\<exists>st'. write_applist sample_platform export_instance = (None, st')
     \<and> (\<forall>c\<in>{''c1'', ''c2''}. \<exists>t m p.
           map_of (app_set_file st') c =
             Some (applist_header (now_isoformat sample_platform) c #
                     t @ [''unified;Sample;1.0.0;sample-1.0.0.exe;/S'' @ nl] @
                     m @ ['';MakeMKV;1.2.0;Setup_MakeMKV_v1.2.0.exe;/S'' @ nl] @ p))"
proof -
  have h1: "app_set_file export_instance = []"
    by code_simp
  have h2: "load_config (config export_instance) = None"
    by code_simp
  have h3: "getitem (config export_instance) APPS_LIST_SECTNAME =
              Inr [(''alpha'', ''yes''), (''beta'', ''yes'')]"
    by code_simp
  have h4: "map fst [(''alpha'', ''yes''), (''beta'', ''yes'')] = [] @ ''alpha'' # [] @ ''beta'' # []"
    by simp
  have h5: "\<forall>k\<in>set (map fst [(''alpha'', ''yes''), (''beta'', ''yes'')]).
              exportable (config export_instance) (catalog export_instance) k"
    by code_simp
  have h6: "enabled (config export_instance) ''alpha'' = Inr True"
    by code_simp
  have h7: "enabled (config export_instance) ''beta'' = Inr True"
    by code_simp
  have h8: "getitem (catalog export_instance) ''alpha'' = Inr (sample_props ''no'')"
    by code_simp
  have h9: "app_line (sample_props ''no'') = Inr ''unified;Sample;1.0.0;sample-1.0.0.exe;/S''"
    by code_simp
  have h10: "getitem (catalog export_instance) ''beta'' = Inr beta_props"
    by code_simp
  have h11: "app_line beta_props = Inr '';MakeMKV;1.2.0;Setup_MakeMKV_v1.2.0.exe;/S''"
    by code_simp
  have h12: "getitem2 (config export_instance) ''alpha'' APP_SET_KEYNAME = Inr ''all''"
    by code_simp
  have h13: "getitem2 (config export_instance) ''beta'' APP_SET_KEYNAME = Inr ''all''"
    by code_simp
  have h14: "getitem2 (config export_instance) SETS_LIST_SECTNAME ''all'' = Inr ''c1, c2''"
    by code_simp
  have h15: "map strip (split CHR '','' ''c1, c2'') = [''c1'', ''c2'']"
    by code_simp
  from write_applist_grouping[OF h1 h2 h3 h4 h5 h6 h7 h8 h9 h10 h11 h12 h13 h14 h15]
  show ?thesis .
qed

section \<open>C10: what a dump leaves in the section\<close>

text \<open>
  C10. For every product object \<open>p\<close> and every catalog, dumping \<open>p\<close> under the
  identifier \<open>s\<close> leaves exactly one section \<open>s\<close>, and that section holds exactly the
  eleven standard keys, in the order of the dump, with the values of \<open>p\<close>: whatever
  keys the section held before are gone, and the boolean \<open>update_available\<close> is written
  as the string \<open>yes\<close> or \<open>no\<close>.
\<close>

theorem dump_product_section:
  "getitem (dump_product cat s p) s =
     Inr [(''name'', name p),
          (''version'', version p),
          (''published'', published p),
          (''target'', target p),
          (''release_note'', release_note p),
          (''installer'', installer p),
          (''std_inst_args'', std_inst_args p),
          (''silent_inst_args'', silent_inst_arg p),
          (''update_available'', if update_available p then ''yes'' else ''no''),
          (''update_version'', update_version p),
          (''update_published'', update_published p)]
   \<and> count_list (sections (dump_product cat s p)) s = 1"
proof
  show "getitem (dump_product cat s p) s =
     Inr [(''name'', name p),
          (''version'', version p),
          (''published'', published p),
          (''target'', target p),
          (''release_note'', release_note p),
          (''installer'', installer p),
          (''std_inst_args'', std_inst_args p),
          (''silent_inst_args'', silent_inst_arg p),
          (''update_available'', if update_available p then ''yes'' else ''no''),
          (''update_version'', update_version p),
          (''update_published'', update_published p)]"
    by (simp only: getitem_dump_product dumped_props_def keynames)
  have "count_list (filter (\<lambda>n. n \<noteq> s) xs) s = 0" for xs :: "string list"
    by (induction xs) auto
  then show "count_list (sections (dump_product cat s p)) s = 1"
    by (simp add: sections_dump_product)
qed

theorem dump_product_section_witness:
  "getitem (dump_product [(''sample'', [(''obsolete'', ''x''), (''name'', ''Old'')])] ''sample''
      (blank_product\<lparr>name := ''Sample'', version := ''1.2.0'', update_available := True\<rparr>))
     ''sample'' =
     Inr [(''name'', ''Sample''),
          (''version'', ''1.2.0''),
          (''published'', ''''),
          (''target'', ''''),
          (''release_note'', ''''),
          (''installer'', ''''),
          (''std_inst_args'', ''''),
          (''silent_inst_args'', ''''),
          (''update_available'', ''yes''),
          (''update_version'', ''''),
          (''update_published'', '''')]"
  using dump_product_section
    [of "[(''sample'', [(''obsolete'', ''x''), (''name'', ''Old'')])]" "''sample''"
        "blank_product\<lparr>name := ''Sample'', version := ''1.2.0'', update_available := True\<rparr>"]
  by (simp add: blank_product_def)

end
